theory Spec2Isabelle
  imports Main "HOL-Library.Sublist" "HOL-Library.AList"
begin

text \<open>
  A model of \<^verbatim>\<open>week-4/multi-llm-aggregator/server.js\<close>, the relay that sends one prompt to
  the APIs of OpenAI, Google Gemini and Anthropic and serves the static files of the user
  interface, and the proofs of its properties. Asynchronous functions are modelled by what
  they do: the \<^verbatim>\<open>fetch\<close> calls they issue and the value or exception their promise settles
  with. The vendors, the file system and the environment are parameters.
\<close>

section \<open>JavaScript values\<close>

text \<open>
  The server of \<^verbatim>\<open>week-4/multi-llm-aggregator/server.js\<close> only handles values that come out
  of \<^verbatim>\<open>JSON.parse\<close> or \<^verbatim>\<open>response.json()\<close>, plus \<^verbatim>\<open>undefined\<close> for a property that is
  not there. A JSON value is a \<open>json\<close>; a value that may be \<^verbatim>\<open>undefined\<close> is a
  \<open>json option\<close> with \<open>None\<close> for \<^verbatim>\<open>undefined\<close>.

  The program never computes with a number: it tests it for truthiness, interpolates it in
  a string or hands it on. A number is therefore represented by the text that
  \<^verbatim>\<open>Number.prototype.toString\<close> gives for it (\<^verbatim>\<open>0\<close> and \<^verbatim>\<open>-0\<close> both give \<open>''0''\<close>).
  Strings are lists of \<open>char\<close>, so the characters are those of the Latin-1 range.
\<close>

datatype json =
    JNull
  | JBool bool
  | JNum string
  | JStr string
  | JArr "json list"
  | JObj "(string \<times> json) list"

text \<open>An exception object: \<^verbatim>\<open>error.message\<close> and \<^verbatim>\<open>error.code\<close> (set by \<^verbatim>\<open>fs\<close> errors).\<close>

datatype exn = Exn (exn_message: string) (exn_code: "string option")

definition TypeError :: "string \<Rightarrow> exn" where
  "TypeError msg = Exn msg None"

definition Error :: "string \<Rightarrow> exn" where
  "Error msg = Exn msg None"

fun truthy :: "json \<Rightarrow> bool" where
  "truthy JNull = False"
| "truthy (JBool b) = b"
| "truthy (JNum n) = (n \<noteq> ''0'' \<and> n \<noteq> ''NaN'')"
| "truthy (JStr s) = (s \<noteq> [])"
| "truthy (JArr xs) = True"
| "truthy (JObj kvs) = True"

text \<open>\<^verbatim>\<open>a || b\<close> where \<open>b\<close> may be \<^verbatim>\<open>undefined\<close>, and \<^verbatim>\<open>a || d\<close> with a literal \<open>d\<close>.\<close>

definition js_or :: "json option \<Rightarrow> json option \<Rightarrow> json option" where
  "js_or a b = (case a of None \<Rightarrow> b | Some v \<Rightarrow> if truthy v then Some v else b)"

definition js_or_default :: "json option \<Rightarrow> json \<Rightarrow> json" where
  "js_or_default a d = (case a of None \<Rightarrow> d | Some v \<Rightarrow> if truthy v then v else d)"

definition str_or :: "string option \<Rightarrow> string \<Rightarrow> string" where
  "str_or a d = (case a of None \<Rightarrow> d | Some s \<Rightarrow> if s \<noteq> [] then s else d)"

fun join_str :: "string \<Rightarrow> string list \<Rightarrow> string" where
  "join_str sep [] = []"
| "join_str sep [x] = x"
| "join_str sep (x # y # ys) = x @ sep @ join_str sep (y # ys)"

text \<open>\<^verbatim>\<open>ToString\<close> on a JSON value, as a template literal and \<^verbatim>\<open>Array.prototype.join\<close>
  apply it. An array is joined with commas, \<^verbatim>\<open>null\<close> elements giving the empty string.
  Objects and arrays are taken with the methods they inherit: an object that has an own
  property \<^verbatim>\<open>toString\<close> (or an array with an own \<^verbatim>\<open>join\<close>), for which \<^verbatim>\<open>ToString\<close>
  throws or gives another text, is outside the model. The properties below are about
  identifiers that are strings.\<close>

fun to_string :: "json \<Rightarrow> string" where
  "to_string JNull = ''null''"
| "to_string (JBool b) = (if b then ''true'' else ''false'')"
| "to_string (JNum n) = n"
| "to_string (JStr s) = s"
| "to_string (JArr xs) = join_str '','' (map (\<lambda>x. if x = JNull then [] else to_string x) xs)"
| "to_string (JObj kvs) = ''[object Object]''"

text \<open>The element conversion of \<^verbatim>\<open>Array.prototype.join\<close>: \<^verbatim>\<open>undefined\<close> and \<^verbatim>\<open>null\<close>
  give the empty string.\<close>

definition join_elem :: "json option \<Rightarrow> string" where
  "join_elem v = (case v of None \<Rightarrow> [] | Some x \<Rightarrow> if x = JNull then [] else to_string x)"

subsection \<open>Property keys and property access\<close>

definition is_digit :: "char \<Rightarrow> bool" where
  "is_digit c = (48 \<le> (of_char c :: nat) \<and> (of_char c :: nat) \<le> 57)"

definition digits_value :: "string \<Rightarrow> nat" where
  "digits_value s = foldl (\<lambda>acc c. 10 * acc + ((of_char c :: nat) - 48)) 0 s"

text \<open>An array index is a canonical decimal numeral below \<open>2^32 - 1\<close>.\<close>

definition array_index :: "string \<Rightarrow> nat option" where
  "array_index k =
     (if k \<noteq> [] \<and> list_all is_digit k \<and> (k = ''0'' \<or> hd k \<noteq> CHR ''0'')
         \<and> digits_value k < 2 ^ 32 - 1
      then Some (digits_value k) else None)"

text \<open>
  \<open>own_prop v k\<close> is \<^verbatim>\<open>v[k]\<close> for a value \<open>v\<close> that is neither \<^verbatim>\<open>null\<close> nor
  \<^verbatim>\<open>undefined\<close>: the own data property of an object, the element of an array, the
  character of a string. Inherited properties are left out: the program reads the names
  \<^verbatim>\<open>apiKey\<close>, \<^verbatim>\<open>model\<close>, \<^verbatim>\<open>maxTokens\<close>, \<^verbatim>\<open>prompt\<close>, \<^verbatim>\<open>providers\<close>, \<^verbatim>\<open>config\<close>,
  \<^verbatim>\<open>choices\<close>, \<^verbatim>\<open>candidates\<close>, \<^verbatim>\<open>message\<close>, \<^verbatim>\<open>content\<close>, \<^verbatim>\<open>parts\<close>, \<^verbatim>\<open>text\<close> and the
  index \<^verbatim>\<open>0\<close>, none of which a prototype defines, and \<^verbatim>\<open>config[provider]\<close>, whose value
  is only used when \<^verbatim>\<open>provider\<close> is one of the three vendor names.
\<close>

fun own_prop :: "json \<Rightarrow> string \<Rightarrow> json option" where
  "own_prop (JObj kvs) k = map_of kvs k"
| "own_prop (JArr xs) k =
     (case array_index k of
        None \<Rightarrow> None
      | Some i \<Rightarrow> if i < length xs then Some (xs ! i) else None)"
| "own_prop (JStr s) k =
     (case array_index k of
        None \<Rightarrow> None
      | Some i \<Rightarrow> if i < length s then Some (JStr [s ! i]) else None)"
| "own_prop v k = None"

definition quoted :: "string \<Rightarrow> string" where
  "quoted s = [CHR 0x27] @ s @ [CHR 0x27]"

text \<open>\<^verbatim>\<open>v.k\<close>: a \<^verbatim>\<open>TypeError\<close> on \<^verbatim>\<open>null\<close> and \<^verbatim>\<open>undefined\<close> (the messages are V8's).\<close>

definition get_prop :: "json option \<Rightarrow> string \<Rightarrow> exn + json option" where
  "get_prop v k =
     (case v of
        None \<Rightarrow>
          Inl (TypeError (''Cannot read properties of undefined (reading '' @ quoted k @ '')''))
      | Some x \<Rightarrow>
          if x = JNull
          then Inl (TypeError (''Cannot read properties of null (reading '' @ quoted k @ '')''))
          else Inr (own_prop x k))"

text \<open>One link \<^verbatim>\<open>v?.\<close> of an optional chain: the rest of the chain is skipped, with value
  \<^verbatim>\<open>undefined\<close>, when \<open>v\<close> is \<^verbatim>\<open>undefined\<close> or \<^verbatim>\<open>null\<close>.\<close>

definition opt_chain :: "json option \<Rightarrow> (json \<Rightarrow> exn + 'a option) \<Rightarrow> exn + 'a option" where
  "opt_chain v rest =
     (case v of None \<Rightarrow> Inr None | Some x \<Rightarrow> if x = JNull then Inr None else rest x)"

subsection \<open>\<^verbatim>\<open>String.prototype.trim\<close>\<close>

text \<open>The white space and line terminators of the Latin-1 range: tab, line feed, vertical
  tab, form feed, carriage return, space and no-break space.\<close>

definition is_js_space :: "char \<Rightarrow> bool" where
  "is_js_space c = (c \<in> set [CHR 0x09, CHR 0x0A, CHR 0x0B, CHR 0x0C, CHR 0x0D, CHR 0x20, CHR 0xA0])"

definition trim :: "string \<Rightarrow> string" where
  "trim s = rev (dropWhile is_js_space (rev (dropWhile is_js_space s)))"

text \<open>\<^verbatim>\<open>v.trim()\<close> for a value \<open>v\<close> that is not nullish: only a string has the method;
  \<open>callee\<close> is the text of the call that V8 prints in the message.\<close>

definition call_trim :: "string \<Rightarrow> json \<Rightarrow> exn + string option" where
  "call_trim callee v =
     (case v of
        JStr s \<Rightarrow> Inr (Some (trim s))
      | _ \<Rightarrow> Inl (TypeError (callee @ '' is not a function'')))"

text \<open>\<^verbatim>\<open>xs.map((part) => part.text)\<close> on the elements of an array, left to right.\<close>

fun map_text :: "json list \<Rightarrow> exn + json option list" where
  "map_text [] = Inr []"
| "map_text (p # ps) =
     (case get_prop (Some p) ''text'' of
        Inl e \<Rightarrow> Inl e
      | Inr t \<Rightarrow> (case map_text ps of Inl e \<Rightarrow> Inl e | Inr ts \<Rightarrow> Inr (t # ts)))"

text \<open>\<^verbatim>\<open>v.map((part) => part.text).join('\n')?.trim()\<close> for a value \<open>v\<close> that is not nullish:
  only an array has \<^verbatim>\<open>map\<close>, and the joined string is never nullish.\<close>

definition map_text_join_trim :: "string \<Rightarrow> json \<Rightarrow> exn + string option" where
  "map_text_join_trim callee v =
     (case v of
        JArr xs \<Rightarrow>
          (case map_text xs of
             Inl e \<Rightarrow> Inl e
           | Inr ts \<Rightarrow> Inr (Some (trim (join_str [CHR 0x0A] (map join_elem ts)))))
      | _ \<Rightarrow> Inl (TypeError (callee @ '' is not a function'')))"

section \<open>The vendor call\<close>

text \<open>
  The request handed to \<^verbatim>\<open>fetch\<close>. \<open>body\<close> is the value given to \<^verbatim>\<open>JSON.stringify\<close>.
  \<^verbatim>\<open>fetch\<close> either rejects or resolves with a response, of which the program reads
  \<^verbatim>\<open>status\<close>, \<^verbatim>\<open>ok\<close> (the status is in 200..299), \<^verbatim>\<open>text()\<close> and \<^verbatim>\<open>json()\<close>; the last two
  may reject too.
\<close>

record http_request =
  url :: string
  http_method :: string
  headers :: "(string \<times> string) list"
  body :: json

record http_response =
  status_code :: nat
  read_text :: "exn + string"
  read_json :: "exn + json"

datatype fetch_outcome = Rejected exn | Resolved http_response

type_synonym fetch = "http_request \<Rightarrow> fetch_outcome"

type_synonym environment = "string \<Rightarrow> string option"

definition ok :: "http_response \<Rightarrow> bool" where
  "ok response = (200 \<le> status_code response \<and> status_code response \<le> 299)"

text \<open>The decimal numeral of a natural number, as a template literal renders
  \<^verbatim>\<open>response.status\<close>.\<close>

fun show_nat :: "nat \<Rightarrow> string" where
  "show_nat n =
     (if n < 10 then [''0123456789'' ! n]
      else show_nat (n div 10) @ [''0123456789'' ! (n mod 10)])"

declare show_nat.simps [simp del]

section \<open>Normalized results\<close>

datatype status = Success | Missing_credentials | Unsupported | Failed

text \<open>\<open>Failed\<close> is the status \<^verbatim>\<open>'error'\<close>. \<open>raw = None\<close> is a result without the \<^verbatim>\<open>raw\<close>
  field.\<close>

record normalized_result =
  provider :: json
  status :: status
  message :: string
  raw :: "json option"

text \<open>What an asynchronous function does: the \<^verbatim>\<open>fetch\<close> calls it issued, and whether its
  promise rejects (\<open>Inl\<close>) or resolves (\<open>Inr\<close>).\<close>

type_synonym 'a async = "http_request list \<times> (exn + 'a)"

section \<open>Provider adapters\<close>

text \<open>\<^verbatim>\<open>data.choices?.[0]?.message?.content?.trim()\<close>\<close>

definition openai_text :: "json \<Rightarrow> exn + string option" where
  "openai_text data =
     (case get_prop (Some data) ''choices'' of
        Inl e \<Rightarrow> Inl e
      | Inr choices \<Rightarrow>
          opt_chain choices (\<lambda>choices.
          opt_chain (own_prop choices ''0'') (\<lambda>choice.
          opt_chain (own_prop choice ''message'') (\<lambda>msg.
          opt_chain (own_prop msg ''content'') (\<lambda>content.
          call_trim ''data.choices?.[0]?.message?.content?.trim'' content)))))"

text \<open>\<^verbatim>\<open>data.candidates?.[0]?.content?.parts?.map((part) => part.text).join('\n')?.trim()\<close>\<close>

definition gemini_text :: "json \<Rightarrow> exn + string option" where
  "gemini_text data =
     (case get_prop (Some data) ''candidates'' of
        Inl e \<Rightarrow> Inl e
      | Inr candidates \<Rightarrow>
          opt_chain candidates (\<lambda>candidates.
          opt_chain (own_prop candidates ''0'') (\<lambda>candidate.
          opt_chain (own_prop candidate ''content'') (\<lambda>content.
          opt_chain (own_prop content ''parts'') (\<lambda>parts.
          map_text_join_trim ''data.candidates?.[0]?.content?.parts?.map'' parts)))))"

text \<open>\<^verbatim>\<open>data.content?.map((entry) => entry.text).join('\n')?.trim()\<close>\<close>

definition anthropic_text :: "json \<Rightarrow> exn + string option" where
  "anthropic_text data =
     (case get_prop (Some data) ''content'' of
        Inl e \<Rightarrow> Inl e
      | Inr content \<Rightarrow>
          opt_chain content (\<lambda>content. map_text_join_trim ''data.content?.map'' content))"

definition queryOpenAI :: "json \<Rightarrow> json \<Rightarrow> environment \<Rightarrow> fetch \<Rightarrow> normalized_result async" where
  "queryOpenAI prompt config env fetch =
     (let missing = \<lparr>provider = JStr ''openai'', status = Missing_credentials,
                     message = ''OPENAI_API_KEY is not set'', raw = None\<rparr>
      in case get_prop (Some config) ''apiKey'' of
        Inl e \<Rightarrow> ([], Inl e)
      | Inr k \<Rightarrow>
          (case js_or k (map_option JStr (env ''OPENAI_API_KEY'')) of
             None \<Rightarrow> ([], Inr missing)
           | Some apiKey \<Rightarrow>
               if \<not> truthy apiKey then ([], Inr missing)
               else
                 let requestBody = JObj
                       [(''model'', js_or_default (own_prop config ''model'') (JStr ''gpt-4o-mini'')),
                        (''messages'', JArr
                           [JObj [(''role'', JStr ''system''),
                                  (''content'', JStr ''You are a helpful assistant participating in a multi-model comparison.'')],
                            JObj [(''role'', JStr ''user''), (''content'', prompt)]])];
                     request = \<lparr>url = ''https://api.openai.com/v1/chat/completions'',
                                http_method = ''POST'',
                                headers = [(''Content-Type'', ''application/json''),
                                           (''Authorization'', ''Bearer '' @ to_string apiKey)],
                                body = requestBody\<rparr>
                 in ([request],
                     case fetch request of
                       Rejected e \<Rightarrow> Inl e
                     | Resolved response \<Rightarrow>
                         if \<not> ok response
                         then (case read_text response of
                                 Inl e \<Rightarrow> Inl e
                               | Inr errorText \<Rightarrow>
                                   Inl (Error (''OpenAI error: '' @ show_nat (status_code response)
                                               @ '' '' @ errorText)))
                         else (case read_json response of
                                 Inl e \<Rightarrow> Inl e
                               | Inr data \<Rightarrow>
                                   (case openai_text data of
                                      Inl e \<Rightarrow> Inl e
                                    | Inr text \<Rightarrow>
                                        Inr \<lparr>provider = JStr ''openai'', status = Success,
                                             message = str_or text ''No response received.'',
                                             raw = Some data\<rparr>)))))"

definition queryGemini :: "json \<Rightarrow> json \<Rightarrow> environment \<Rightarrow> fetch \<Rightarrow> normalized_result async" where
  "queryGemini prompt config env fetch =
     (let missing = \<lparr>provider = JStr ''gemini'', status = Missing_credentials,
                     message = ''GEMINI_API_KEY is not set'', raw = None\<rparr>
      in case get_prop (Some config) ''apiKey'' of
        Inl e \<Rightarrow> ([], Inl e)
      | Inr k \<Rightarrow>
          (case js_or k (map_option JStr (env ''GEMINI_API_KEY'')) of
             None \<Rightarrow> ([], Inr missing)
           | Some apiKey \<Rightarrow>
               if \<not> truthy apiKey then ([], Inr missing)
               else
                 let model = js_or_default (own_prop config ''model'') (JStr ''gemini-1.5-flash'');
                     endpoint = ''https://generativelanguage.googleapis.com/v1beta/models/''
                                @ to_string model @ '':generateContent?key='' @ to_string apiKey;
                     requestBody = JObj
                       [(''contents'', JArr
                           [JObj [(''role'', JStr ''user''),
                                  (''parts'', JArr [JObj [(''text'', prompt)]])]])];
                     request = \<lparr>url = endpoint,
                                http_method = ''POST'',
                                headers = [(''Content-Type'', ''application/json'')],
                                body = requestBody\<rparr>
                 in ([request],
                     case fetch request of
                       Rejected e \<Rightarrow> Inl e
                     | Resolved response \<Rightarrow>
                         if \<not> ok response
                         then (case read_text response of
                                 Inl e \<Rightarrow> Inl e
                               | Inr errorText \<Rightarrow>
                                   Inl (Error (''Gemini error: '' @ show_nat (status_code response)
                                               @ '' '' @ errorText)))
                         else (case read_json response of
                                 Inl e \<Rightarrow> Inl e
                               | Inr data \<Rightarrow>
                                   (case gemini_text data of
                                      Inl e \<Rightarrow> Inl e
                                    | Inr text \<Rightarrow>
                                        Inr \<lparr>provider = JStr ''gemini'', status = Success,
                                             message = str_or text ''No response received.'',
                                             raw = Some data\<rparr>)))))"

definition queryAnthropic :: "json \<Rightarrow> json \<Rightarrow> environment \<Rightarrow> fetch \<Rightarrow> normalized_result async" where
  "queryAnthropic prompt config env fetch =
     (let missing = \<lparr>provider = JStr ''anthropic'', status = Missing_credentials,
                     message = ''ANTHROPIC_API_KEY is not set'', raw = None\<rparr>
      in case get_prop (Some config) ''apiKey'' of
        Inl e \<Rightarrow> ([], Inl e)
      | Inr k \<Rightarrow>
          (case js_or k (map_option JStr (env ''ANTHROPIC_API_KEY'')) of
             None \<Rightarrow> ([], Inr missing)
           | Some apiKey \<Rightarrow>
               if \<not> truthy apiKey then ([], Inr missing)
               else
                 let model = js_or_default (own_prop config ''model'') (JStr ''claude-3-haiku-20240307'');
                     requestBody = JObj
                       [(''model'', model),
                        (''max_tokens'', js_or_default (own_prop config ''maxTokens'') (JNum ''1024'')),
                        (''messages'', JArr
                           [JObj [(''role'', JStr ''user''), (''content'', prompt)]])];
                     request = \<lparr>url = ''https://api.anthropic.com/v1/messages'',
                                http_method = ''POST'',
                                headers = [(''Content-Type'', ''application/json''),
                                           (''x-api-key'', to_string apiKey),
                                           (''anthropic-version'', ''2023-06-01'')],
                                body = requestBody\<rparr>
                 in ([request],
                     case fetch request of
                       Rejected e \<Rightarrow> Inl e
                     | Resolved response \<Rightarrow>
                         if \<not> ok response
                         then (case read_text response of
                                 Inl e \<Rightarrow> Inl e
                               | Inr errorText \<Rightarrow>
                                   Inl (Error (''Anthropic error: '' @ show_nat (status_code response)
                                               @ '' '' @ errorText)))
                         else (case read_json response of
                                 Inl e \<Rightarrow> Inl e
                               | Inr data \<Rightarrow>
                                   (case anthropic_text data of
                                      Inl e \<Rightarrow> Inl e
                                    | Inr text \<Rightarrow>
                                        Inr \<lparr>provider = JStr ''anthropic'', status = Success,
                                             message = str_or text ''No response received.'',
                                             raw = Some data\<rparr>)))))"

text \<open>
  \<^verbatim>\<open>queryProvider\<close>: the \<^verbatim>\<open>switch\<close> compares with \<^verbatim>\<open>===\<close>; the \<^verbatim>\<open>catch\<close> turns a
  rejection of the adapter into a result (\<^verbatim>\<open>console.error\<close> only logs).
\<close>

definition queryProvider ::
  "json \<Rightarrow> json \<Rightarrow> json \<Rightarrow> environment \<Rightarrow> fetch \<Rightarrow> normalized_result async" where
  "queryProvider provider' prompt providerConfig env fetch =
     (let (calls, outcome) =
            (if provider' = JStr ''openai'' then queryOpenAI prompt providerConfig env fetch
             else if provider' = JStr ''gemini'' then queryGemini prompt providerConfig env fetch
             else if provider' = JStr ''anthropic'' then queryAnthropic prompt providerConfig env fetch
             else ([], Inr \<lparr>provider = provider', status = Unsupported,
                            message = ''Provider '' @ [CHR 0x22] @ to_string provider' @ [CHR 0x22]
                                      @ '' is not implemented'',
                            raw = None\<rparr>))
      in (calls,
          case outcome of
            Inr result \<Rightarrow> Inr result
          | Inl error \<Rightarrow>
              Inr \<lparr>provider = provider', status = Failed,
                   message = str_or (Some (exn_message error)) ''Unexpected error'',
                   raw = None\<rparr>))"

section \<open>Paths\<close>

text \<open>
  The functions of Node's \<^verbatim>\<open>path\<close> module that the server calls, in their POSIX form.
  A path is cut into segments at every \<^verbatim>\<open>/\<close>; \<open>normalizeString\<close> works through the
  segments with the result so far: an empty segment and \<^verbatim>\<open>.\<close> are dropped, \<^verbatim>\<open>..\<close> removes
  the last segment of the result unless there is none or it is \<^verbatim>\<open>..\<close> itself, in which
  case \<^verbatim>\<open>..\<close> is kept only if the path may climb above its start.
\<close>

fun split_path :: "string \<Rightarrow> string list" where
  "split_path [] = [[]]"
| "split_path (c # cs) =
     (if c = CHR ''/'' then [] # split_path cs
      else (case split_path cs of [] \<Rightarrow> [[c]] | seg # segs \<Rightarrow> (c # seg) # segs))"

fun normalizeString :: "bool \<Rightarrow> string list \<Rightarrow> string list \<Rightarrow> string list" where
  "normalizeString allowAboveRoot res [] = res"
| "normalizeString allowAboveRoot res (seg # segs) =
     (if seg = [] \<or> seg = ''.'' then normalizeString allowAboveRoot res segs
      else if seg = ''..'' then
        (if res \<noteq> [] \<and> last res \<noteq> ''..''
         then normalizeString allowAboveRoot (butlast res) segs
         else if allowAboveRoot then normalizeString allowAboveRoot (res @ [''..'']) segs
         else normalizeString allowAboveRoot res segs)
      else normalizeString allowAboveRoot (res @ [seg]) segs)"

definition posix_normalize :: "string \<Rightarrow> string" where
  "posix_normalize path =
     (if path = [] then ''.''
      else
        let isAbsolute = (hd path = CHR ''/'');
            trailingSeparator = (last path = CHR ''/'');
            normalized = join_str ''/'' (normalizeString (\<not> isAbsolute) [] (split_path path))
        in if normalized = []
           then (if isAbsolute then ''/'' else if trailingSeparator then ''./'' else ''.'')
           else (if isAbsolute then ''/'' else []) @ normalized
                @ (if trailingSeparator then ''/'' else []))"

definition posix_join :: "string list \<Rightarrow> string" where
  "posix_join args =
     (let parts = filter (\<lambda>arg. arg \<noteq> []) args
      in if parts = [] then ''.'' else posix_normalize (join_str ''/'' parts))"

text \<open>\<^verbatim>\<open>path.extname\<close>: from the last dot of the last segment (trailing separators apart), and
  empty when that segment has no dot, starts with its only dot, or is \<^verbatim>\<open>..\<close>.\<close>

definition posix_extname :: "string \<Rightarrow> string" where
  "posix_extname path =
     (let segs = filter (\<lambda>seg. seg \<noteq> []) (split_path path);
          base = (if segs = [] then [] else last segs);
          stem = rev (drop 1 (dropWhile (\<lambda>c. c \<noteq> CHR ''.'') (rev base)));
          ext = CHR ''.'' # rev (takeWhile (\<lambda>c. c \<noteq> CHR ''.'') (rev base))
      in if CHR ''.'' \<notin> set base \<or> stem = [] \<or> base = ''..'' then [] else ext)"

text \<open>\<^verbatim>\<open>.replace(/^\.\.(\/|\\)/, '')\<close>: a leading \<^verbatim>\<open>../\<close> or \<^verbatim>\<open>..\\<close> is removed, once.\<close>

definition strip_leading_parent :: "string \<Rightarrow> string" where
  "strip_leading_parent p =
     (case p of
        c1 # c2 # c3 # rest \<Rightarrow>
          if c1 = CHR ''.'' \<and> c2 = CHR ''.'' \<and> (c3 = CHR ''/'' \<or> c3 = CHR 0x5C) then rest else p
      | _ \<Rightarrow> p)"

section \<open>The static file resolver\<close>

datatype reply_body =
    ErrorJson string
  | QueryJson json "(string \<times> normalized_result) list"
  | FileBody string
  | TextBody string

text \<open>What \<^verbatim>\<open>res.writeHead\<close> and \<^verbatim>\<open>res.end\<close> send. \<open>ErrorJson m\<close> is the object
  \<^verbatim>\<open>{ error: m }\<close>, \<open>QueryJson p rs\<close> the object \<^verbatim>\<open>{ prompt: p, responses: rs }\<close> with \<open>rs\<close>
  in the order in which its properties were created.\<close>

record http_reply =
  reply_status :: nat
  content_type :: string
  sent_body :: reply_body

text \<open>\<open>dirname\<close> is \<^verbatim>\<open>__dirname\<close>, the directory of \<^verbatim>\<open>server.js\<close>.\<close>

definition publicDir :: "string \<Rightarrow> string" where
  "publicDir dirname = posix_join [dirname, ''public'']"

definition getContentType :: "string \<Rightarrow> string" where
  "getContentType filePath =
     (let ext = posix_extname filePath
      in if ext = ''.html'' then ''text/html; charset=utf-8''
         else if ext = ''.css'' then ''text/css; charset=utf-8''
         else if ext = ''.js'' then ''application/javascript; charset=utf-8''
         else if ext = ''.json'' then ''application/json; charset=utf-8''
         else if ext = ''.svg'' then ''image/svg+xml''
         else ''application/octet-stream'')"

text \<open>
  \<open>serveStatic\<close> returns the path it gave to \<^verbatim>\<open>fs.readFile\<close> and either the reply it sent
  or the exception it threw again. \<open>readFile\<close> is the file system: the contents of the
  file, or the error of the read with its \<^verbatim>\<open>code\<close>.
\<close>

definition serveStatic ::
  "string \<Rightarrow> (string \<Rightarrow> exn + string) \<Rightarrow> string \<Rightarrow> string \<times> (exn + http_reply)" where
  "serveStatic dirname readFile requestPath =
     (let relativePath = (if requestPath = ''/'' then ''/index.html'' else requestPath);
          requestedFile = strip_leading_parent (posix_normalize relativePath);
          filePath = posix_join [publicDir dirname, requestedFile]
      in (filePath,
          case readFile filePath of
            Inr data \<Rightarrow>
              Inr \<lparr>reply_status = 200, content_type = getContentType filePath,
                   sent_body = FileBody data\<rparr>
          | Inl error \<Rightarrow>
              if exn_code error = Some ''ENOENT''
              then Inr \<lparr>reply_status = 404, content_type = ''text/plain'',
                        sent_body = TextBody ''Not found''\<rparr>
              else Inl error))"

section \<open>The aggregator and the HTTP entry point\<close>

text \<open>
  \<^verbatim>\<open>Promise.all\<close>: the promises settle one after the other in the order \<open>order\<close> (a list
  of positions in \<open>tasks\<close>); the value of a fulfilled promise is stored at its position,
  the first rejection rejects the whole, and the whole is fulfilled when every position
  holds a value. The result is \<open>None\<close> as long as some promise has not settled.
\<close>

fun settle :: "(exn + 'a) list \<Rightarrow> nat list \<Rightarrow> 'a option list \<Rightarrow> exn + 'a option list" where
  "settle tasks [] vals = Inr vals"
| "settle tasks (i # order) vals =
     (if i < length tasks
      then (case tasks ! i of
              Inl e \<Rightarrow> Inl e
            | Inr v \<Rightarrow> settle tasks order (vals[i := Some v]))
      else settle tasks order vals)"

definition promise_all :: "(exn + 'a) list \<Rightarrow> nat list \<Rightarrow> (exn + 'a list) option" where
  "promise_all tasks order =
     (case settle tasks order (replicate (length tasks) None) of
        Inl e \<Rightarrow> Some (Inl e)
      | Inr vals \<Rightarrow> map_option Inr (those vals))"

text \<open>
  The world around one request: \<^verbatim>\<open>__dirname\<close>, the file system, \<^verbatim>\<open>JSON.parse\<close> (\<open>None\<close>
  for a syntax error), \<^verbatim>\<open>process.env\<close>, what \<^verbatim>\<open>fetch\<close> answers to the call of the task at
  each position, and the order in which the tasks settle.
\<close>

record world =
  w_dirname :: string
  w_readFile :: "string \<Rightarrow> exn + string"
  w_parse :: "string \<Rightarrow> json option"
  w_env :: environment
  w_net :: "nat \<Rightarrow> fetch"
  w_order :: "nat list"

text \<open>The request: \<^verbatim>\<open>req.method\<close>, the \<^verbatim>\<open>pathname\<close> of \<^verbatim>\<open>new URL(req.url, ...)\<close> (\<open>None\<close>
  when the constructor throws) and the text of the body (\<open>None\<close> when reading it fails).\<close>

record http_message =
  req_method :: string
  req_pathname :: "string option"
  req_body :: "string option"

text \<open>What handling a request did: the \<^verbatim>\<open>fetch\<close> calls, the files read and the reply
  (\<open>None\<close> when no reply is ever sent).\<close>

record handled =
  fetch_calls :: "http_request list"
  file_reads :: "string list"
  reply :: "http_reply option"

definition json_reply :: "nat \<Rightarrow> reply_body \<Rightarrow> http_reply" where
  "json_reply code b = \<lparr>reply_status = code, content_type = ''application/json'', sent_body = b\<rparr>"

text \<open>The outer \<^verbatim>\<open>catch\<close>: status 500 with a generic message.\<close>

definition internal_error :: http_reply where
  "internal_error = json_reply 500 (ErrorJson ''Internal server error'')"

text \<open>\<^verbatim>\<open>providers.map((provider) => queryProvider(provider, prompt, config[provider] || {}))\<close>:
  the task at position \<open>i\<close> talks to \<open>w_net w i\<close>. \<^verbatim>\<open>config[provider]\<close> throws when
  \<^verbatim>\<open>config\<close> is \<^verbatim>\<open>null\<close>, for the first element already.\<close>

fun launch ::
  "world \<Rightarrow> json \<Rightarrow> json \<Rightarrow> nat \<Rightarrow> json list \<Rightarrow> exn + normalized_result async list" where
  "launch w prompt config i [] = Inr []"
| "launch w prompt config i (p # ps) =
     (case get_prop (Some config) (to_string p) of
        Inl e \<Rightarrow> Inl e
      | Inr c \<Rightarrow>
          (case launch w prompt config (Suc i) ps of
             Inl e \<Rightarrow> Inl e
           | Inr tasks \<Rightarrow>
               Inr (queryProvider p prompt (js_or_default c (JObj [])) (w_env w) (w_net w i)
                    # tasks)))"

text \<open>\<^verbatim>\<open>results.reduce((acc, result) => ({ ...acc, [result.provider]: result }), {})\<close>:
  an existing property keeps its place and takes the new value, a new one goes last.\<close>

definition collect :: "normalized_result list \<Rightarrow> (string \<times> normalized_result) list" where
  "collect results =
     foldl (\<lambda>acc result. AList.update (to_string (provider result)) result acc) [] results"

text \<open>The order in which \<^verbatim>\<open>JSON.stringify\<close> writes the properties of an object: the
  array indices in ascending order, then the other names in the order of creation.\<close>

definition object_keys :: "(string \<times> 'a) list \<Rightarrow> string list" where
  "object_keys kvs =
     (let ks = map fst kvs
      in sort_key (\<lambda>k. the (array_index k)) (filter (\<lambda>k. array_index k \<noteq> None) ks)
         @ filter (\<lambda>k. array_index k = None) ks)"

definition aggregate :: "world \<Rightarrow> json \<Rightarrow> json \<Rightarrow> json \<Rightarrow> handled" where
  "aggregate w prompt providers config =
     (case providers of
        JArr ids \<Rightarrow>
          (case launch w prompt config 0 ids of
             Inl e \<Rightarrow> \<lparr>fetch_calls = [], file_reads = [], reply = Some internal_error\<rparr>
           | Inr tasks \<Rightarrow>
               \<lparr>fetch_calls = concat (map fst tasks), file_reads = [],
                reply =
                  (case promise_all (map snd tasks) (w_order w) of
                     None \<Rightarrow> None
                   | Some (Inl e) \<Rightarrow> Some internal_error
                   | Some (Inr results) \<Rightarrow>
                       Some (json_reply 200 (QueryJson prompt (collect results))))\<rparr>)
      | _ \<Rightarrow> \<lparr>fetch_calls = [], file_reads = [], reply = Some internal_error\<rparr>)"

definition handle_request :: "world \<Rightarrow> http_message \<Rightarrow> handled" where
  "handle_request w req =
     (case req_pathname req of
        None \<Rightarrow> \<lparr>fetch_calls = [], file_reads = [], reply = Some internal_error\<rparr>
      | Some pathname \<Rightarrow>
          if req_method req = ''POST'' \<and> pathname = ''/api/query'' then
            (case req_body req of
               None \<Rightarrow> \<lparr>fetch_calls = [], file_reads = [], reply = Some internal_error\<rparr>
             | Some bodyText \<Rightarrow>
                 (case (if bodyText = [] then Some (JObj []) else w_parse w bodyText) of
                    None \<Rightarrow>
                      \<lparr>fetch_calls = [], file_reads = [],
                       reply = Some (json_reply 400 (ErrorJson ''Invalid JSON payload''))\<rparr>
                  | Some payload \<Rightarrow>
                      if payload = JNull
                      then \<lparr>fetch_calls = [], file_reads = [], reply = Some internal_error\<rparr>
                      else
                        let prompt = own_prop payload ''prompt'';
                            providers = (case own_prop payload ''providers'' of
                                           None \<Rightarrow> JArr [JStr ''openai'', JStr ''gemini'', JStr ''anthropic'']
                                         | Some v \<Rightarrow> v);
                            config = (case own_prop payload ''config'' of
                                        None \<Rightarrow> JObj []
                                      | Some v \<Rightarrow> v)
                        in (case prompt of
                              Some (JStr text) \<Rightarrow>
                                if text = []
                                then \<lparr>fetch_calls = [], file_reads = [],
                                      reply = Some (json_reply 400 (ErrorJson ''Prompt is required''))\<rparr>
                                else aggregate w (JStr text) providers config
                            | _ \<Rightarrow>
                                \<lparr>fetch_calls = [], file_reads = [],
                                 reply = Some (json_reply 400 (ErrorJson ''Prompt is required''))\<rparr>)))
          else if req_method req = ''GET'' then
            (case serveStatic (w_dirname w) (w_readFile w) pathname of
               (filePath, Inr sent) \<Rightarrow>
                 \<lparr>fetch_calls = [], file_reads = [filePath], reply = Some sent\<rparr>
             | (filePath, Inl error) \<Rightarrow>
                 \<lparr>fetch_calls = [], file_reads = [filePath], reply = Some internal_error\<rparr>)
          else \<lparr>fetch_calls = [], file_reads = [],
                reply = Some (json_reply 405 (ErrorJson ''Method not allowed''))\<rparr>)"

section \<open>Auxiliary notions and sample inputs\<close>

definition known_provider :: "json \<Rightarrow> bool" where
  "known_provider p = (p = JStr ''openai'' \<or> p = JStr ''gemini'' \<or> p = JStr ''anthropic'')"

text \<open>An environment with no variable set, and a network where every call fails.\<close>

definition no_env :: environment where
  "no_env name = None"

definition unreachable :: fetch where
  "unreachable request = Rejected (Error ''fetch failed'')"



definition keyed_config :: json where
  "keyed_config = JObj [(''apiKey'', JStr ''sk-test'')]"



text \<open>A network failure whose error has an empty message.\<close>

definition silent_failure :: fetch where
  "silent_failure request = Rejected (Error [])"

text \<open>A vendor answer 503 with a body, and an answer 500 whose body cannot be read.\<close>

definition busy_response :: http_response where
  "busy_response =
     \<lparr>status_code = 503, read_text = Inr ''busy'',
      read_json = Inl (Error ''Unexpected token b in JSON at position 0'')\<rparr>"

definition busy_vendor :: fetch where
  "busy_vendor request = Resolved busy_response"

definition truncated_response :: http_response where
  "truncated_response =
     \<lparr>status_code = 500, read_text = Inl (TypeError ''terminated''),
      read_json = Inl (TypeError ''terminated'')\<rparr>"

definition truncated :: fetch where
  "truncated request = Resolved truncated_response"

text \<open>The vendors' answers that carry the text \<open>s\<close>.\<close>

definition openai_answer :: "string \<Rightarrow> json" where
  "openai_answer s =
     JObj [(''choices'', JArr [JObj [(''message'', JObj [(''content'', JStr s)])]])]"

definition gemini_answer :: "string \<Rightarrow> json" where
  "gemini_answer s =
     JObj [(''candidates'',
            JArr [JObj [(''content'', JObj [(''parts'', JArr [JObj [(''text'', JStr s)]])])]])]"

definition anthropic_answer :: "string \<Rightarrow> json" where
  "anthropic_answer s = JObj [(''content'', JArr [JObj [(''type'', JStr ''text''), (''text'', JStr s)]])]"

text \<open>A vendor answer 200 whose only text is white space, in OpenAI's shape.\<close>

definition blank_data :: json where
  "blank_data = openai_answer ''  ''"

definition blank_response :: http_response where
  "blank_response = \<lparr>status_code = 200, read_text = Inr [], read_json = Inr blank_data\<rparr>"

definition blank_answer :: fetch where
  "blank_answer request = Resolved blank_response"

text \<open>The object that the \<^verbatim>\<open>catch\<close> clause of \<^verbatim>\<open>queryProvider\<close> returns for the
  exception \<open>e\<close>.\<close>

definition caught :: "json \<Rightarrow> exn \<Rightarrow> normalized_result" where
  "caught p e = \<lparr>provider = p, status = Failed,
                 message = str_or (Some (exn_message e)) ''Unexpected error'', raw = None\<rparr>"


text \<open>The request that \<^verbatim>\<open>queryAnthropic\<close> sends for the prompt \<^verbatim>\<open>hello\<close> and
  \<open>keyed_config\<close>.\<close>

definition keyed_anthropic_request :: http_request where
  "keyed_anthropic_request =
     \<lparr>url = ''https://api.anthropic.com/v1/messages'', http_method = ''POST'',
      headers = [(''Content-Type'', ''application/json''), (''x-api-key'', ''sk-test''),
                 (''anthropic-version'', ''2023-06-01'')],
      body = JObj [(''model'', JStr ''claude-3-haiku-20240307''), (''max_tokens'', JNum ''1024''),
                   (''messages'', JArr [JObj [(''role'', JStr ''user''), (''content'', JStr ''hello'')]])]\<rparr>"


text \<open>A world for sample requests: no file exists, no environment variable is set, the
  network is down, \<^verbatim>\<open>JSON.parse\<close> knows two bodies, and the second task settles first.\<close>

definition sample_parse :: "string \<Rightarrow> json option" where
  \<open>sample_parse text =
     (if text = ''{"prompt":"hi","providers":["gemini","openai"]}''
      then Some (JObj [(''prompt'', JStr ''hi''),
                       (''providers'', JArr [JStr ''gemini'', JStr ''openai''])])
      else if text = ''{"prompt":"hi","providers":[]}''
      then Some (JObj [(''prompt'', JStr ''hi''), (''providers'', JArr [])])
      else None)\<close>

definition no_files :: "string \<Rightarrow> exn + string" where
  "no_files path = Inl (Exn (''ENOENT: no such file or directory, open '' @ quoted path) (Some ''ENOENT''))"

definition sample_world :: world where
  "sample_world =
     \<lparr>w_dirname = ''/srv/app'', w_readFile = no_files, w_parse = sample_parse,
      w_env = no_env, w_net = (\<lambda>i. unreachable), w_order = [1, 0]\<rparr>"

definition two_providers_request :: http_message where
  \<open>two_providers_request =
     \<lparr>req_method = ''POST'', req_pathname = Some ''/api/query'',
      req_body = Some ''{"prompt":"hi","providers":["gemini","openai"]}''\<rparr>\<close>

definition no_providers_request :: http_message where
  \<open>no_providers_request =
     \<lparr>req_method = ''POST'', req_pathname = Some ''/api/query'',
      req_body = Some ''{"prompt":"hi","providers":[]}''\<rparr>\<close>

definition traversal_request :: http_message where
  "traversal_request =
     \<lparr>req_method = ''GET'', req_pathname = Some ''/../etc/passwd'', req_body = Some []\<rparr>"

text \<open>A file system that holds the index document of the user interface and nothing
  else (a path that goes through the document fails with \<^verbatim>\<open>ENOTDIR\<close>), a request for
  \<^verbatim>\<open>/../index.html\<close> and one for \<^verbatim>\<open>/index.html/x\<close>.\<close>

definition index_only :: "string \<Rightarrow> exn + string" where
  "index_only path =
     (if path = ''/srv/app/public/index.html'' then Inr ''<!DOCTYPE html>''
      else if prefix ''/srv/app/public/index.html/'' path
      then Inl (Exn (''ENOTDIR: not a directory, open '' @ quoted path) (Some ''ENOTDIR''))
      else no_files path)"

definition site_world :: world where
  "site_world = sample_world\<lparr>w_readFile := index_only\<rparr>"

definition below_file_request :: http_message where
  "below_file_request =
     \<lparr>req_method = ''GET'', req_pathname = Some ''/index.html/x'', req_body = Some []\<rparr>"

definition traversal_index_request :: http_message where
  "traversal_index_request =
     \<lparr>req_method = ''GET'', req_pathname = Some ''/../index.html'', req_body = Some []\<rparr>"

text \<open>
  \<open>under_root root path\<close>: the path is the root directory itself or starts with the root
  and a separator, and none of its segments is \<^verbatim>\<open>..\<close>, so that it names a place inside the
  root. \<open>clean\<close> holds of a list of segments that are names: not empty, not \<^verbatim>\<open>.\<close>, not
  \<^verbatim>\<open>..\<close>, without separator.
\<close>

definition under_root :: "string \<Rightarrow> string \<Rightarrow> bool" where
  "under_root root path =
     ((path = root \<or> prefix (root @ ''/'') path) \<and> ''..'' \<notin> set (split_path path))"

definition clean :: "string list \<Rightarrow> bool" where
  "clean segs =
     list_all (\<lambda>s. s \<noteq> [] \<and> s \<noteq> ''.'' \<and> s \<noteq> ''..'' \<and> CHR ''/'' \<notin> set s) segs"

section \<open>Properties\<close>

lemma str_or_nonempty: "d \<noteq> [] \<Longrightarrow> str_or a d \<noteq> []"
  by (simp add: str_or_def split: option.splits)

text \<open>
  C6. For every prompt, configuration, environment and network, a provider identifier
  that is none of \<^verbatim>\<open>openai\<close>, \<^verbatim>\<open>gemini\<close>, \<^verbatim>\<open>anthropic\<close> makes \<open>queryProvider\<close> resolve
  with status \<^verbatim>\<open>unsupported\<close>, a message that contains the identifier, and no call to
  \<^verbatim>\<open>fetch\<close>.
\<close>

theorem unknown_provider_unsupported:
  assumes "\<not> known_provider p"
  shows "\<exists>r. queryProvider p prompt config env fetch = ([], Inr r)
           \<and> provider r = p \<and> status r = Unsupported \<and> raw r = None
           \<and> message r = ''Provider '' @ [CHR 0x22] @ to_string p @ [CHR 0x22] @ '' is not implemented''
           \<and> sublist (to_string p) (message r)"
proof -
  let ?m = "''Provider '' @ [CHR 0x22] @ to_string p @ [CHR 0x22] @ '' is not implemented''"
  let ?r = "\<lparr>provider = p, status = Unsupported, message = ?m, raw = None\<rparr>"
  have "queryProvider p prompt config env fetch = ([], Inr ?r)"
    using assms by (simp add: queryProvider_def known_provider_def)
  moreover have "sublist (to_string p) ?m"
    unfolding sublist_def by (intro exI[of _ "''Provider '' @ [CHR 0x22]"] exI[of _ "[CHR 0x22] @ '' is not implemented''"]) simp
  ultimately show ?thesis by simp
qed

theorem unknown_provider_unsupported_witness:
  "\<not> known_provider (JStr ''mistral'') \<and>
   queryProvider (JStr ''mistral'') (JStr ''hello'') (JObj []) no_env unreachable =
     ([], Inr \<lparr>provider = JStr ''mistral'', status = Unsupported,
              message = ''Provider '' @ [CHR 0x22] @ ''mistral'' @ [CHR 0x22] @ '' is not implemented'', raw = None\<rparr>)"
proof -
  have k: "\<not> known_provider (JStr ''mistral'')" by (simp add: known_provider_def)
  from unknown_provider_unsupported [OF k, of "JStr ''hello''" "JObj []" no_env unreachable]
  show ?thesis using k by auto
qed

lemma openai_missing:
  "get_prop (Some config) ''apiKey'' = Inr None \<Longrightarrow> env ''OPENAI_API_KEY'' = None \<Longrightarrow>
   queryOpenAI prompt config env fetch =
     ([], Inr \<lparr>provider = JStr ''openai'', status = Missing_credentials,
               message = ''OPENAI_API_KEY is not set'', raw = None\<rparr>)"
  by (simp add: queryOpenAI_def js_or_def)

lemma gemini_missing:
  "get_prop (Some config) ''apiKey'' = Inr None \<Longrightarrow> env ''GEMINI_API_KEY'' = None \<Longrightarrow>
   queryGemini prompt config env fetch =
     ([], Inr \<lparr>provider = JStr ''gemini'', status = Missing_credentials,
               message = ''GEMINI_API_KEY is not set'', raw = None\<rparr>)"
  by (simp add: queryGemini_def js_or_def)

lemma anthropic_missing:
  "get_prop (Some config) ''apiKey'' = Inr None \<Longrightarrow> env ''ANTHROPIC_API_KEY'' = None \<Longrightarrow>
   queryAnthropic prompt config env fetch =
     ([], Inr \<lparr>provider = JStr ''anthropic'', status = Missing_credentials,
               message = ''ANTHROPIC_API_KEY is not set'', raw = None\<rparr>)"
  by (simp add: queryAnthropic_def js_or_def)

text \<open>
  C5. When \<^verbatim>\<open>config.apiKey\<close> is \<^verbatim>\<open>undefined\<close> and the vendor's environment variable is
  not set, each of the three adapters resolves with status \<^verbatim>\<open>missing_credentials\<close> and
  has called \<^verbatim>\<open>fetch\<close> zero times.
\<close>

theorem missing_credentials_without_network:
  assumes "get_prop (Some config) ''apiKey'' = Inr None"
  shows "(env ''OPENAI_API_KEY'' = None \<longrightarrow>
            queryOpenAI prompt config env fetch =
              ([], Inr \<lparr>provider = JStr ''openai'', status = Missing_credentials,
                        message = ''OPENAI_API_KEY is not set'', raw = None\<rparr>))
       \<and> (env ''GEMINI_API_KEY'' = None \<longrightarrow>
            queryGemini prompt config env fetch =
              ([], Inr \<lparr>provider = JStr ''gemini'', status = Missing_credentials,
                        message = ''GEMINI_API_KEY is not set'', raw = None\<rparr>))
       \<and> (env ''ANTHROPIC_API_KEY'' = None \<longrightarrow>
            queryAnthropic prompt config env fetch =
              ([], Inr \<lparr>provider = JStr ''anthropic'', status = Missing_credentials,
                        message = ''ANTHROPIC_API_KEY is not set'', raw = None\<rparr>))"
  using assms openai_missing gemini_missing anthropic_missing by blast

theorem missing_credentials_without_network_witness:
  "get_prop (Some (JObj [(''model'', JStr ''gpt-4o'')])) ''apiKey'' = Inr None
   \<and> no_env ''OPENAI_API_KEY'' = None \<and> no_env ''GEMINI_API_KEY'' = None \<and> no_env ''ANTHROPIC_API_KEY'' = None
   \<and> fst (queryOpenAI (JStr ''hello'') (JObj [(''model'', JStr ''gpt-4o'')]) no_env unreachable) = []
   \<and> fst (queryGemini (JStr ''hello'') (JObj [(''model'', JStr ''gpt-4o'')]) no_env unreachable) = []
   \<and> fst (queryAnthropic (JStr ''hello'') (JObj [(''model'', JStr ''gpt-4o'')]) no_env unreachable) = []"
proof -
  have h: "get_prop (Some (JObj [(''model'', JStr ''gpt-4o'')])) ''apiKey'' = Inr None"
    by (simp add: get_prop_def)
  have e: "no_env ''OPENAI_API_KEY'' = None" "no_env ''GEMINI_API_KEY'' = None" "no_env ''ANTHROPIC_API_KEY'' = None"
    by (simp_all add: no_env_def)
  from missing_credentials_without_network [OF h, of no_env "JStr ''hello''" unreachable] e
  show ?thesis using h by simp
qed


















lemma openai_resolved_aux:
  "case snd (queryOpenAI prompt config env fetch) of
     Inl e \<Rightarrow> True
   | Inr r \<Rightarrow> provider r = JStr ''openai'' \<and> message r \<noteq> [] \<and> (raw r \<noteq> None \<longrightarrow> status r = Success)"
  by (simp add: queryOpenAI_def Let_def str_or_nonempty split: sum.split option.split fetch_outcome.split)

lemma gemini_resolved_aux:
  "case snd (queryGemini prompt config env fetch) of
     Inl e \<Rightarrow> True
   | Inr r \<Rightarrow> provider r = JStr ''gemini'' \<and> message r \<noteq> [] \<and> (raw r \<noteq> None \<longrightarrow> status r = Success)"
  by (simp add: queryGemini_def Let_def str_or_nonempty split: sum.split option.split fetch_outcome.split)

lemma anthropic_resolved_aux:
  "case snd (queryAnthropic prompt config env fetch) of
     Inl e \<Rightarrow> True
   | Inr r \<Rightarrow> provider r = JStr ''anthropic'' \<and> message r \<noteq> [] \<and> (raw r \<noteq> None \<longrightarrow> status r = Success)"
  by (simp add: queryAnthropic_def Let_def str_or_nonempty split: sum.split option.split fetch_outcome.split)

lemma queryProvider_openai:
  "queryProvider (JStr ''openai'') prompt config env fetch =
     (fst (queryOpenAI prompt config env fetch),
      case snd (queryOpenAI prompt config env fetch) of
        Inr r \<Rightarrow> Inr r | Inl e \<Rightarrow> Inr (caught (JStr ''openai'') e))"
  by (simp add: queryProvider_def caught_def split_beta split: sum.split)

lemma queryProvider_gemini:
  "queryProvider (JStr ''gemini'') prompt config env fetch =
     (fst (queryGemini prompt config env fetch),
      case snd (queryGemini prompt config env fetch) of
        Inr r \<Rightarrow> Inr r | Inl e \<Rightarrow> Inr (caught (JStr ''gemini'') e))"
  by (simp add: queryProvider_def caught_def split_beta split: sum.split)

lemma queryProvider_anthropic:
  "queryProvider (JStr ''anthropic'') prompt config env fetch =
     (fst (queryAnthropic prompt config env fetch),
      case snd (queryAnthropic prompt config env fetch) of
        Inr r \<Rightarrow> Inr r | Inl e \<Rightarrow> Inr (caught (JStr ''anthropic'') e))"
  by (simp add: queryProvider_def caught_def split_beta split: sum.split)

lemma queryProvider_unknown:
  "\<not> known_provider p \<Longrightarrow>
   queryProvider p prompt config env fetch =
     ([], Inr \<lparr>provider = p, status = Unsupported,
               message = ''Provider '' @ [CHR 0x22] @ to_string p @ [CHR 0x22] @ '' is not implemented'',
               raw = None\<rparr>)"
  by (simp add: queryProvider_def known_provider_def)

lemma caught_invariant:
  "provider (caught p e) = p \<and> status (caught p e) = Failed \<and> message (caught p e) \<noteq> [] \<and> raw (caught p e) = None"
  by (simp add: caught_def str_or_nonempty)

lemma queryProvider_result:
  "\<exists>r. snd (queryProvider p prompt config env fetch) = Inr r
       \<and> provider r = p \<and> message r \<noteq> [] \<and> (raw r \<noteq> None \<longrightarrow> status r = Success)"
proof -
  consider "p = JStr ''openai''" | "p = JStr ''gemini''" | "p = JStr ''anthropic''" | "\<not> known_provider p"
    by (auto simp add: known_provider_def)
  then show ?thesis
  proof cases
    case 1
    show ?thesis
      unfolding 1 queryProvider_openai
      using openai_resolved_aux[of prompt config env fetch] caught_invariant[of "JStr ''openai''"]
      by (cases "snd (queryOpenAI prompt config env fetch)") simp_all
  next
    case 2
    show ?thesis
      unfolding 2 queryProvider_gemini
      using gemini_resolved_aux[of prompt config env fetch] caught_invariant[of "JStr ''gemini''"]
      by (cases "snd (queryGemini prompt config env fetch)") simp_all
  next
    case 3
    show ?thesis
      unfolding 3 queryProvider_anthropic
      using anthropic_resolved_aux[of prompt config env fetch] caught_invariant[of "JStr ''anthropic''"]
      by (cases "snd (queryAnthropic prompt config env fetch)") simp_all
  next
    case 4
    show ?thesis
      unfolding queryProvider_unknown[OF 4] by simp
  qed
qed

lemma queryProvider_resolves:
  "\<exists>r. snd (queryProvider p prompt config env fetch) = Inr r"
  using queryProvider_result[of p prompt config env fetch] by blast

text \<open>
  C4. Whatever the provider identifier, the prompt, the configuration, the environment and
  the vendor's behaviour, \<open>queryProvider\<close> resolves with a result whose message is not
  empty and which has the \<^verbatim>\<open>raw\<close> field only when its status is \<^verbatim>\<open>success\<close>.
\<close>

theorem result_invariant:
  "\<exists>r. snd (queryProvider p prompt config env fetch) = Inr r
       \<and> message r \<noteq> []
       \<and> (raw r \<noteq> None \<longrightarrow> status r = Success)
       \<and> (status r = Missing_credentials \<or> status r = Unsupported \<or> status r = Failed
            \<longrightarrow> raw r = None)"
proof -
  from queryProvider_result[of p prompt config env fetch] obtain r where
    r: "snd (queryProvider p prompt config env fetch) = Inr r" "message r \<noteq> []"
       "raw r \<noteq> None \<longrightarrow> status r = Success"
    by blast
  from r(3) have "status r = Missing_credentials \<or> status r = Unsupported \<or> status r = Failed
            \<longrightarrow> raw r = None"
    by auto
  with r show ?thesis by blast
qed
lemmas eval_defs = queryProvider_def queryOpenAI_def queryGemini_def queryAnthropic_def
  keyed_config_def no_env_def blank_answer_def blank_response_def blank_data_def openai_answer_def gemini_answer_def anthropic_answer_def silent_failure_def
  truncated_def truncated_response_def busy_vendor_def busy_response_def
  get_prop_def js_or_def js_or_default_def str_or_def ok_def Error_def TypeError_def
  openai_text_def gemini_text_def anthropic_text_def opt_chain_def call_trim_def trim_def is_js_space_def
  array_index_def is_digit_def digits_value_def map_text_join_trim_def join_elem_def

lemma show_nat_500: "show_nat 500 = ''500''" by (simp add: show_nat.simps)
lemma show_nat_503: "show_nat 503 = ''503''" by (simp add: show_nat.simps)

lemma caught_message:
  "caught p e = \<lparr>provider = p, status = Failed,
       message = (if exn_message e = [] then ''Unexpected error'' else exn_message e), raw = None\<rparr>"
  by (simp add: caught_def str_or_def)

text \<open>
  C3 (amended). \<open>queryProvider\<close> never rejects, whatever the identifier and whatever the
  adapter does. When the adapter rejects with an exception, \<open>queryProvider\<close> resolves with
  status \<^verbatim>\<open>error\<close> and no \<^verbatim>\<open>raw\<close> field, and the message is the exception's message when
  that message is not empty, and \<^verbatim>\<open>Unexpected error\<close> when it is empty.
\<close>

theorem adapter_failure_is_caught:
  "(\<exists>r. snd (queryProvider p prompt config env fetch) = Inr r)
   \<and> (snd (queryOpenAI prompt config env fetch) = Inl e \<longrightarrow>
        snd (queryProvider (JStr ''openai'') prompt config env fetch) =
          Inr \<lparr>provider = JStr ''openai'', status = Failed,
               message = (if exn_message e = [] then ''Unexpected error'' else exn_message e),
               raw = None\<rparr>)
   \<and> (snd (queryGemini prompt config env fetch) = Inl e \<longrightarrow>
        snd (queryProvider (JStr ''gemini'') prompt config env fetch) =
          Inr \<lparr>provider = JStr ''gemini'', status = Failed,
               message = (if exn_message e = [] then ''Unexpected error'' else exn_message e),
               raw = None\<rparr>)
   \<and> (snd (queryAnthropic prompt config env fetch) = Inl e \<longrightarrow>
        snd (queryProvider (JStr ''anthropic'') prompt config env fetch) =
          Inr \<lparr>provider = JStr ''anthropic'', status = Failed,
               message = (if exn_message e = [] then ''Unexpected error'' else exn_message e),
               raw = None\<rparr>)"
proof (intro conjI impI)
  show "\<exists>r. snd (queryProvider p prompt config env fetch) = Inr r"
    by (rule queryProvider_resolves)
next
  assume "snd (queryOpenAI prompt config env fetch) = Inl e"
  then show "snd (queryProvider (JStr ''openai'') prompt config env fetch) =
          Inr \<lparr>provider = JStr ''openai'', status = Failed,
               message = (if exn_message e = [] then ''Unexpected error'' else exn_message e),
               raw = None\<rparr>"
    by (simp add: queryProvider_openai caught_message)
next
  assume "snd (queryGemini prompt config env fetch) = Inl e"
  then show "snd (queryProvider (JStr ''gemini'') prompt config env fetch) =
          Inr \<lparr>provider = JStr ''gemini'', status = Failed,
               message = (if exn_message e = [] then ''Unexpected error'' else exn_message e),
               raw = None\<rparr>"
    by (simp add: queryProvider_gemini caught_message)
next
  assume "snd (queryAnthropic prompt config env fetch) = Inl e"
  then show "snd (queryProvider (JStr ''anthropic'') prompt config env fetch) =
          Inr \<lparr>provider = JStr ''anthropic'', status = Failed,
               message = (if exn_message e = [] then ''Unexpected error'' else exn_message e),
               raw = None\<rparr>"
    by (simp add: queryProvider_anthropic caught_message)
qed

theorem adapter_failure_is_caught_witness:
  "snd (queryAnthropic (JStr ''hello'') keyed_config no_env unreachable) = Inl (Error ''fetch failed'')
   \<and> snd (queryProvider (JStr ''anthropic'') (JStr ''hello'') keyed_config no_env unreachable) =
          Inr \<lparr>provider = JStr ''anthropic'', status = Failed, message = ''fetch failed'', raw = None\<rparr>"
proof -
  have h: "snd (queryAnthropic (JStr ''hello'') keyed_config no_env unreachable) = Inl (Error ''fetch failed'')"
    by (simp add: eval_defs unreachable_def)
  from adapter_failure_is_caught[of "JStr ''anthropic''" "JStr ''hello''" keyed_config no_env unreachable "Error ''fetch failed''"] h
  show ?thesis by (simp add: Error_def)
qed

text \<open>
  C3 as stated fails for an exception with an empty message: the result's message is then
  \<^verbatim>\<open>Unexpected error\<close>, not the exception's message.
\<close>

theorem empty_exception_message_counterexample:
  "snd (queryOpenAI (JStr ''hello'') keyed_config no_env silent_failure) = Inl (Error [])
   \<and> snd (queryProvider (JStr ''openai'') (JStr ''hello'') keyed_config no_env silent_failure)
       = Inr \<lparr>provider = JStr ''openai'', status = Failed, message = ''Unexpected error'', raw = None\<rparr>
   \<and> ''Unexpected error'' \<noteq> exn_message (Error [])"
  by (simp add: eval_defs)
lemma openai_vendor_error:
  "fst (queryOpenAI prompt config env fetch) = [request] \<longrightarrow> fetch request = Resolved response \<longrightarrow>
   \<not> ok response \<longrightarrow>
   snd (queryOpenAI prompt config env fetch) =
     (case read_text response of
        Inl e \<Rightarrow> Inl e
      | Inr errorText \<Rightarrow>
          Inl (Error (''OpenAI error: '' @ show_nat (status_code response) @ '' '' @ errorText)))"
  by (simp add: queryOpenAI_def Let_def split: sum.split option.split)

lemma gemini_vendor_error:
  "fst (queryGemini prompt config env fetch) = [request] \<longrightarrow> fetch request = Resolved response \<longrightarrow>
   \<not> ok response \<longrightarrow>
   snd (queryGemini prompt config env fetch) =
     (case read_text response of
        Inl e \<Rightarrow> Inl e
      | Inr errorText \<Rightarrow>
          Inl (Error (''Gemini error: '' @ show_nat (status_code response) @ '' '' @ errorText)))"
  by (simp add: queryGemini_def Let_def split: sum.split option.split)

lemma anthropic_vendor_error:
  "fst (queryAnthropic prompt config env fetch) = [request] \<longrightarrow> fetch request = Resolved response \<longrightarrow>
   \<not> ok response \<longrightarrow>
   snd (queryAnthropic prompt config env fetch) =
     (case read_text response of
        Inl e \<Rightarrow> Inl e
      | Inr errorText \<Rightarrow>
          Inl (Error (''Anthropic error: '' @ show_nat (status_code response) @ '' '' @ errorText)))"
  by (simp add: queryAnthropic_def Let_def split: sum.split option.split)








lemma openai_error_result:
  assumes "fetch request = Resolved response" "\<not> ok response"
    "fst (queryOpenAI prompt config env fetch) = [request]"
  shows "\<exists>r. snd (queryProvider (JStr ''openai'') prompt config env fetch) = Inr r
           \<and> status r = Failed \<and> raw r = None
           \<and> (\<forall>errorText. read_text response = Inr errorText \<longrightarrow>
                 message r = ''OpenAI error: '' @ show_nat (status_code response) @ '' '' @ errorText
                 \<and> sublist (show_nat (status_code response)) (message r))
           \<and> (\<forall>e. read_text response = Inl e \<longrightarrow>
                 message r = (if exn_message e = [] then ''Unexpected error'' else exn_message e))"
proof (cases "read_text response")
  case (Inl e)
  with openai_vendor_error[of prompt config env fetch request response] assms
  have "snd (queryOpenAI prompt config env fetch) = Inl e" by simp
  then have "snd (queryProvider (JStr ''openai'') prompt config env fetch) = Inr (caught (JStr ''openai'') e)"
    by (simp add: queryProvider_openai)
  then show ?thesis using Inl by (simp add: caught_message)
next
  case (Inr errorText)
  let ?m = "''OpenAI error: '' @ show_nat (status_code response) @ '' '' @ errorText"
  from Inr openai_vendor_error[of prompt config env fetch request response] assms
  have "snd (queryOpenAI prompt config env fetch) = Inl (Error ?m)" by simp
  then have "snd (queryProvider (JStr ''openai'') prompt config env fetch)
               = Inr (caught (JStr ''openai'') (Error ?m))"
    by (simp add: queryProvider_openai)
  moreover have "caught (JStr ''openai'') (Error ?m)
                   = \<lparr>provider = JStr ''openai'', status = Failed, message = ?m, raw = None\<rparr>"
    by (simp add: caught_message Error_def)
  moreover have "sublist (show_nat (status_code response)) ?m"
    unfolding sublist_def
    by (intro exI[of _ "''OpenAI error: ''"] exI[of _ "'' '' @ errorText"]) simp
  ultimately show ?thesis using Inr by simp
qed

lemma gemini_error_result:
  assumes "fetch request = Resolved response" "\<not> ok response"
    "fst (queryGemini prompt config env fetch) = [request]"
  shows "\<exists>r. snd (queryProvider (JStr ''gemini'') prompt config env fetch) = Inr r
           \<and> status r = Failed \<and> raw r = None
           \<and> (\<forall>errorText. read_text response = Inr errorText \<longrightarrow>
                 message r = ''Gemini error: '' @ show_nat (status_code response) @ '' '' @ errorText
                 \<and> sublist (show_nat (status_code response)) (message r))
           \<and> (\<forall>e. read_text response = Inl e \<longrightarrow>
                 message r = (if exn_message e = [] then ''Unexpected error'' else exn_message e))"
proof (cases "read_text response")
  case (Inl e)
  with gemini_vendor_error[of prompt config env fetch request response] assms
  have "snd (queryGemini prompt config env fetch) = Inl e" by simp
  then have "snd (queryProvider (JStr ''gemini'') prompt config env fetch) = Inr (caught (JStr ''gemini'') e)"
    by (simp add: queryProvider_gemini)
  then show ?thesis using Inl by (simp add: caught_message)
next
  case (Inr errorText)
  let ?m = "''Gemini error: '' @ show_nat (status_code response) @ '' '' @ errorText"
  from Inr gemini_vendor_error[of prompt config env fetch request response] assms
  have "snd (queryGemini prompt config env fetch) = Inl (Error ?m)" by simp
  then have "snd (queryProvider (JStr ''gemini'') prompt config env fetch)
               = Inr (caught (JStr ''gemini'') (Error ?m))"
    by (simp add: queryProvider_gemini)
  moreover have "caught (JStr ''gemini'') (Error ?m)
                   = \<lparr>provider = JStr ''gemini'', status = Failed, message = ?m, raw = None\<rparr>"
    by (simp add: caught_message Error_def)
  moreover have "sublist (show_nat (status_code response)) ?m"
    unfolding sublist_def
    by (intro exI[of _ "''Gemini error: ''"] exI[of _ "'' '' @ errorText"]) simp
  ultimately show ?thesis using Inr by simp
qed

lemma anthropic_error_result:
  assumes "fetch request = Resolved response" "\<not> ok response"
    "fst (queryAnthropic prompt config env fetch) = [request]"
  shows "\<exists>r. snd (queryProvider (JStr ''anthropic'') prompt config env fetch) = Inr r
           \<and> status r = Failed \<and> raw r = None
           \<and> (\<forall>errorText. read_text response = Inr errorText \<longrightarrow>
                 message r = ''Anthropic error: '' @ show_nat (status_code response) @ '' '' @ errorText
                 \<and> sublist (show_nat (status_code response)) (message r))
           \<and> (\<forall>e. read_text response = Inl e \<longrightarrow>
                 message r = (if exn_message e = [] then ''Unexpected error'' else exn_message e))"
proof (cases "read_text response")
  case (Inl e)
  with anthropic_vendor_error[of prompt config env fetch request response] assms
  have "snd (queryAnthropic prompt config env fetch) = Inl e" by simp
  then have "snd (queryProvider (JStr ''anthropic'') prompt config env fetch) = Inr (caught (JStr ''anthropic'') e)"
    by (simp add: queryProvider_anthropic)
  then show ?thesis using Inl by (simp add: caught_message)
next
  case (Inr errorText)
  let ?m = "''Anthropic error: '' @ show_nat (status_code response) @ '' '' @ errorText"
  from Inr anthropic_vendor_error[of prompt config env fetch request response] assms
  have "snd (queryAnthropic prompt config env fetch) = Inl (Error ?m)" by simp
  then have "snd (queryProvider (JStr ''anthropic'') prompt config env fetch)
               = Inr (caught (JStr ''anthropic'') (Error ?m))"
    by (simp add: queryProvider_anthropic)
  moreover have "caught (JStr ''anthropic'') (Error ?m)
                   = \<lparr>provider = JStr ''anthropic'', status = Failed, message = ?m, raw = None\<rparr>"
    by (simp add: caught_message Error_def)
  moreover have "sublist (show_nat (status_code response)) ?m"
    unfolding sublist_def
    by (intro exI[of _ "''Anthropic error: ''"] exI[of _ "'' '' @ errorText"]) simp
  ultimately show ?thesis using Inr by simp
qed

text \<open>
  C7 (amended). When the vendor answers the adapter's request with a status outside
  200..299, the result for that provider has status \<^verbatim>\<open>error\<close>. If the body of the answer
  is read, the message is the vendor's label, the decimal status code and the body, so it
  contains the status code. If reading the body fails, the message is that of the read
  failure (\<^verbatim>\<open>Unexpected error\<close> when it is empty).
\<close>

theorem vendor_error_status:
  assumes "fetch request = Resolved response" and "\<not> ok response"
  shows "(fst (queryOpenAI prompt config env fetch) = [request] \<longrightarrow>
          (\<exists>r. snd (queryProvider (JStr ''openai'') prompt config env fetch) = Inr r
             \<and> status r = Failed \<and> raw r = None
             \<and> (\<forall>errorText. read_text response = Inr errorText \<longrightarrow>
                   message r = ''OpenAI error: '' @ show_nat (status_code response) @ '' '' @ errorText
                   \<and> sublist (show_nat (status_code response)) (message r))
             \<and> (\<forall>e. read_text response = Inl e \<longrightarrow>
                   message r = (if exn_message e = [] then ''Unexpected error'' else exn_message e))))
       \<and> (fst (queryGemini prompt config env fetch) = [request] \<longrightarrow>
          (\<exists>r. snd (queryProvider (JStr ''gemini'') prompt config env fetch) = Inr r
             \<and> status r = Failed \<and> raw r = None
             \<and> (\<forall>errorText. read_text response = Inr errorText \<longrightarrow>
                   message r = ''Gemini error: '' @ show_nat (status_code response) @ '' '' @ errorText
                   \<and> sublist (show_nat (status_code response)) (message r))
             \<and> (\<forall>e. read_text response = Inl e \<longrightarrow>
                   message r = (if exn_message e = [] then ''Unexpected error'' else exn_message e))))
       \<and> (fst (queryAnthropic prompt config env fetch) = [request] \<longrightarrow>
          (\<exists>r. snd (queryProvider (JStr ''anthropic'') prompt config env fetch) = Inr r
             \<and> status r = Failed \<and> raw r = None
             \<and> (\<forall>errorText. read_text response = Inr errorText \<longrightarrow>
                   message r = ''Anthropic error: '' @ show_nat (status_code response) @ '' '' @ errorText
                   \<and> sublist (show_nat (status_code response)) (message r))
             \<and> (\<forall>e. read_text response = Inl e \<longrightarrow>
                   message r = (if exn_message e = [] then ''Unexpected error'' else exn_message e))))"
proof (intro conjI impI)
  assume "fst (queryOpenAI prompt config env fetch) = [request]"
  then show "\<exists>r. snd (queryProvider (JStr ''openai'') prompt config env fetch) = Inr r
             \<and> status r = Failed \<and> raw r = None
             \<and> (\<forall>errorText. read_text response = Inr errorText \<longrightarrow>
                   message r = ''OpenAI error: '' @ show_nat (status_code response) @ '' '' @ errorText
                   \<and> sublist (show_nat (status_code response)) (message r))
             \<and> (\<forall>e. read_text response = Inl e \<longrightarrow>
                   message r = (if exn_message e = [] then ''Unexpected error'' else exn_message e))"
    by (rule openai_error_result[where fetch=fetch and request=request and response=response, OF assms])
next
  assume "fst (queryGemini prompt config env fetch) = [request]"
  then show "\<exists>r. snd (queryProvider (JStr ''gemini'') prompt config env fetch) = Inr r
             \<and> status r = Failed \<and> raw r = None
             \<and> (\<forall>errorText. read_text response = Inr errorText \<longrightarrow>
                   message r = ''Gemini error: '' @ show_nat (status_code response) @ '' '' @ errorText
                   \<and> sublist (show_nat (status_code response)) (message r))
             \<and> (\<forall>e. read_text response = Inl e \<longrightarrow>
                   message r = (if exn_message e = [] then ''Unexpected error'' else exn_message e))"
    by (rule gemini_error_result[where fetch=fetch and request=request and response=response, OF assms])
next
  assume "fst (queryAnthropic prompt config env fetch) = [request]"
  then show "\<exists>r. snd (queryProvider (JStr ''anthropic'') prompt config env fetch) = Inr r
             \<and> status r = Failed \<and> raw r = None
             \<and> (\<forall>errorText. read_text response = Inr errorText \<longrightarrow>
                   message r = ''Anthropic error: '' @ show_nat (status_code response) @ '' '' @ errorText
                   \<and> sublist (show_nat (status_code response)) (message r))
             \<and> (\<forall>e. read_text response = Inl e \<longrightarrow>
                   message r = (if exn_message e = [] then ''Unexpected error'' else exn_message e))"
    by (rule anthropic_error_result[where fetch=fetch and request=request and response=response, OF assms])
qed

theorem vendor_error_status_witness:
  "busy_vendor keyed_anthropic_request = Resolved busy_response
   \<and> \<not> ok busy_response
   \<and> fst (queryAnthropic (JStr ''hello'') keyed_config no_env busy_vendor) = [keyed_anthropic_request]
   \<and> read_text busy_response = Inr ''busy''
   \<and> (\<exists>r. snd (queryProvider (JStr ''anthropic'') (JStr ''hello'') keyed_config no_env busy_vendor) = Inr r
         \<and> status r = Failed
         \<and> message r = ''Anthropic error: 503 busy''
         \<and> sublist ''503'' (message r))"
proof -
  have a: "busy_vendor keyed_anthropic_request = Resolved busy_response"
    by (simp add: busy_vendor_def)
  have b: "\<not> ok busy_response"
    by (simp add: ok_def busy_response_def)
  have c: "fst (queryAnthropic (JStr ''hello'') keyed_config no_env busy_vendor) = [keyed_anthropic_request]"
    by (simp add: eval_defs keyed_anthropic_request_def)
  have d: "read_text busy_response = Inr ''busy''"
    by (simp add: busy_response_def)
  have s: "status_code busy_response = 503"
    by (simp add: busy_response_def)
  from vendor_error_status[where fetch=busy_vendor and request=keyed_anthropic_request
         and response=busy_response and prompt="JStr ''hello''" and config=keyed_config
         and env=no_env, OF a b] c
  obtain r where r: "snd (queryProvider (JStr ''anthropic'') (JStr ''hello'') keyed_config no_env busy_vendor) = Inr r"
      "status r = Failed"
      "\<forall>errorText. read_text busy_response = Inr errorText \<longrightarrow>
          message r = ''Anthropic error: '' @ show_nat (status_code busy_response) @ '' '' @ errorText
          \<and> sublist (show_nat (status_code busy_response)) (message r)"
    by blast
  from r(3) d have "message r = ''Anthropic error: '' @ show_nat 503 @ '' '' @ ''busy''"
      "sublist (show_nat 503) (message r)"
    unfolding s by blast+
  then have "message r = ''Anthropic error: 503 busy''" "sublist ''503'' (message r)"
    by (simp_all add: show_nat_503)
  with r(1,2) a b c d show ?thesis by blast
qed

text \<open>
  C7 as stated fails when the body of the vendor's answer cannot be read: the message is then
  that of the read failure and does not contain the status code.
\<close>

theorem unread_error_body_counterexample:
  "truncated keyed_anthropic_request = Resolved truncated_response
   \<and> status_code truncated_response = 500 \<and> \<not> ok truncated_response
   \<and> queryProvider (JStr ''anthropic'') (JStr ''hello'') keyed_config no_env truncated
       = ([keyed_anthropic_request],
          Inr \<lparr>provider = JStr ''anthropic'', status = Failed, message = ''terminated'', raw = None\<rparr>)
   \<and> \<not> sublist (show_nat 500) ''terminated''"
proof -
  have "\<not> sublist ''500'' ''terminated''"
  proof
    assume "sublist ''500'' ''terminated''"
    then have "set ''500'' \<subseteq> set ''terminated''" by (rule set_mono_sublist)
    then show False by simp
  qed
  then show ?thesis
    by (simp add: eval_defs keyed_anthropic_request_def show_nat_500)
qed













theorem result_invariant_witness:
  "\<exists>r. snd (queryProvider (JStr ''openai'') (JStr ''hello'') keyed_config no_env blank_answer) = Inr r
      \<and> raw r \<noteq> None \<and> status r = Success \<and> message r \<noteq> []"
proof -
  from result_invariant[of "JStr ''openai''" "JStr ''hello''" keyed_config no_env blank_answer]
  obtain r where r: "snd (queryProvider (JStr ''openai'') (JStr ''hello'') keyed_config no_env blank_answer) = Inr r"
     "message r \<noteq> []" "raw r \<noteq> None \<longrightarrow> status r = Success"
    by blast
  have "snd (queryProvider (JStr ''openai'') (JStr ''hello'') keyed_config no_env blank_answer)
     = Inr \<lparr>provider = JStr ''openai'', status = Success, message = ''No response received.'',
            raw = Some blank_data\<rparr>"
    by (simp add: eval_defs)
  with r(1) have "raw r \<noteq> None" by auto
  with r show ?thesis by blast
qed

lemma settle_no_tasks: "settle [] order vals = Inr vals"
  by (induction order) simp_all

lemma promise_all_empty: "promise_all [] order = Some (Inr [])"
  by (simp add: promise_all_def settle_no_tasks)

lemma aggregate_empty:
  "aggregate w prompt (JArr []) config
     = \<lparr>fetch_calls = [], file_reads = [], reply = Some (json_reply 200 (QueryJson prompt []))\<rparr>"
  by (simp add: aggregate_def promise_all_empty collect_def)

lemma own_prop_not_null: "own_prop v k = Some x \<Longrightarrow> v \<noteq> JNull"
  by auto

lemma handle_query:
  assumes "req_method req = ''POST''" "req_pathname req = Some ''/api/query''"
    "req_body req = Some bodyText" "bodyText \<noteq> []" "w_parse w bodyText = Some payload"
    "own_prop payload ''prompt'' = Some (JStr prompt)" "prompt \<noteq> []"
    "own_prop payload ''providers'' = Some providers"
  shows "handle_request w req =
           aggregate w (JStr prompt) providers
             (case own_prop payload ''config'' of None \<Rightarrow> JObj [] | Some v \<Rightarrow> v)"
  using assms own_prop_not_null[OF assms(6)]
  by (simp add: handle_request_def)

text \<open>
  C9. A \<^verbatim>\<open>POST /api/query\<close> whose body parses to an object with a non-empty string
  \<^verbatim>\<open>prompt\<close> and the empty array as \<^verbatim>\<open>providers\<close> is answered with status 200 and an
  empty \<^verbatim>\<open>responses\<close> object, without any call to \<^verbatim>\<open>fetch\<close>, whatever \<^verbatim>\<open>config\<close> is.
\<close>

theorem no_providers_empty_mapping:
  assumes "req_method req = ''POST''" and "req_pathname req = Some ''/api/query''"
    and "req_body req = Some bodyText" and "bodyText \<noteq> []" and "w_parse w bodyText = Some payload"
    and "own_prop payload ''prompt'' = Some (JStr prompt)" and "prompt \<noteq> []"
    and "own_prop payload ''providers'' = Some (JArr [])"
  shows "handle_request w req =
           \<lparr>fetch_calls = [], file_reads = [],
            reply = Some \<lparr>reply_status = 200, content_type = ''application/json'',
                          sent_body = QueryJson (JStr prompt) []\<rparr>\<rparr>"
  unfolding handle_query[OF assms] aggregate_empty json_reply_def by (rule refl)

theorem no_providers_empty_mapping_witness:
  "handle_request sample_world no_providers_request =
     \<lparr>fetch_calls = [], file_reads = [],
      reply = Some \<lparr>reply_status = 200, content_type = ''application/json'',
                    sent_body = QueryJson (JStr ''hi'') []\<rparr>\<rparr>"
proof -
  let ?payload = "JObj [(''prompt'', JStr ''hi''), (''providers'', JArr [])]"
  have 1: "req_method no_providers_request = ''POST''"
    and 2: "req_pathname no_providers_request = Some ''/api/query''"
    by (simp_all add: no_providers_request_def)
  have 3: \<open>req_body no_providers_request = Some ''{"prompt":"hi","providers":[]}''\<close>
    by (simp add: no_providers_request_def)
  have 4: \<open>''{"prompt":"hi","providers":[]}'' \<noteq> []\<close> by simp
  have 5: \<open>w_parse sample_world ''{"prompt":"hi","providers":[]}'' = Some ?payload\<close>
    by (simp add: sample_world_def sample_parse_def)
  have 6: "own_prop ?payload ''prompt'' = Some (JStr ''hi'')" by simp
  have 7: "''hi'' \<noteq> []" by simp
  have 8: "own_prop ?payload ''providers'' = Some (JArr [])" by simp
  show ?thesis by (rule no_providers_empty_mapping[OF 1 2 3 4 5 6 7 8])
qed

lemma those_map_Some: "those (map Some xs) = Some xs"
  by (induction xs) simp_all

lemma settle_fulfilled:
  assumes "\<forall>i<length tasks. \<exists>v. tasks ! i = Inr v" "length vals = length tasks"
  shows "settle tasks order vals =
           Inr (map (\<lambda>i. if i \<in> set order then Some (projr (tasks ! i)) else vals ! i)
                  [0..<length tasks])"
  using assms(2)
proof (induction order arbitrary: vals)
  case Nil
  have "map ((!) vals) [0..<length vals] = vals" by (rule map_nth)
  with Nil show ?case by simp
next
  case (Cons i order)
  show ?case
  proof (cases "i < length tasks")
    case False
    then have "\<forall>j \<in> set [0..<length tasks]. j \<noteq> i" by auto
    with False Cons show ?thesis by (simp cong: map_cong)
  next
    case True
    with assms(1) obtain v where v: "tasks ! i = Inr v" by blast
    have len: "length (vals[i := Some v]) = length tasks" using Cons.prems by simp
    have "settle tasks (i # order) vals = settle tasks order (vals[i := Some v])"
      using True v by simp
    also have "\<dots> = Inr (map (\<lambda>j. if j \<in> set order then Some (projr (tasks ! j))
                                    else (vals[i := Some v]) ! j) [0..<length tasks])"
      by (rule Cons.IH[OF len])
    also have "map (\<lambda>j. if j \<in> set order then Some (projr (tasks ! j))
                         else (vals[i := Some v]) ! j) [0..<length tasks]
             = map (\<lambda>j. if j \<in> set (i # order) then Some (projr (tasks ! j)) else vals ! j)
                 [0..<length tasks]"
      using v Cons.prems by (intro map_cong[OF refl]) (simp add: nth_list_update)
    finally show ?thesis .
  qed
qed

lemma launch_ok:
  assumes "config \<noteq> JNull"
  shows "\<exists>tasks. launch w prompt config i ps = Inr tasks
           \<and> list_all2 (\<lambda>t p. \<exists>r. snd t = Inr r \<and> provider r = p) tasks ps"
proof (induction ps arbitrary: i)
  case Nil
  show ?case by simp
next
  case (Cons p ps)
  from Cons.IH[of "Suc i"] obtain tasks where
    t: "launch w prompt config (Suc i) ps = Inr tasks"
       "list_all2 (\<lambda>t p. \<exists>r. snd t = Inr r \<and> provider r = p) tasks ps"
    by blast
  let ?c = "js_or_default (own_prop config (to_string p)) (JObj [])"
  from queryProvider_result[of p prompt ?c "w_env w" "w_net w i"]
  obtain r where "snd (queryProvider p prompt ?c (w_env w) (w_net w i)) = Inr r" "provider r = p"
    by blast
  with t assms show ?case
    by (simp add: get_prop_def)
qed

lemma update_subset: "set (AList.update k v al) \<subseteq> insert (k, v) (set al)"
  by (induction al) auto

lemma collect_keys_aux:
  "distinct (map fst acc) \<Longrightarrow>
   map fst (foldl (\<lambda>acc r. AList.update (key r) r acc) acc rs)
     = rev (remdups (rev (map fst acc @ map key rs)))"
proof (induction rs rule: rev_induct)
  case Nil
  then show ?case by (simp add: distinct_remdups_id)
next
  case (snoc r rs)
  then show ?case
    by (simp add: update_keys del: rev_append) auto
qed

lemma collect_entries_aux:
  "(\<forall>(k, r) \<in> set acc. k = key r \<and> r \<in> R) \<Longrightarrow> set rs \<subseteq> R \<Longrightarrow>
   \<forall>(k, r) \<in> set (foldl (\<lambda>acc r. AList.update (key r) r acc) acc rs). k = key r \<and> r \<in> R"
proof (induction rs arbitrary: acc)
  case Nil
  then show ?case by simp
next
  case (Cons r rs)
  have "\<forall>(k, r') \<in> set (AList.update (key r) r acc). k = key r' \<and> r' \<in> R"
    using Cons.prems update_subset[of "key r" r acc] by auto
  then show ?case using Cons by simp
qed

lemma launch_w_order:
  "launch (w\<lparr>w_order := x\<rparr>) prompt config i ps = launch w prompt config i ps"
  by (induction ps arbitrary: i) (simp_all split: sum.split)

lemma known_not_index: "known_provider (JStr k) \<Longrightarrow> array_index k = None"
  by (auto simp add: known_provider_def array_index_def is_digit_def)

lemma object_keys_names:
  assumes "list_all (\<lambda>k. array_index k = None) (map fst kvs)"
  shows "object_keys kvs = map fst kvs"
proof -
  have "filter (\<lambda>k. array_index k \<noteq> None) (map fst kvs) = []"
    using assms by (simp add: list_all_iff filter_empty_conv)
  moreover have "filter (\<lambda>k. array_index k = None) (map fst kvs) = map fst kvs"
    using assms by (simp add: list_all_iff)
  ultimately show ?thesis by (simp add: object_keys_def)
qed

lemma collect_keys: "map fst (collect results) = rev (remdups (rev (map (\<lambda>r. to_string (provider r)) results)))"
  unfolding collect_def using collect_keys_aux[of "[]" "\<lambda>r. to_string (provider r)" results] by simp

lemma collect_entries:
  "\<forall>(k, r) \<in> set (collect results). k = to_string (provider r) \<and> r \<in> set results"
  unfolding collect_def
  using collect_entries_aux[of "[]" "\<lambda>r. to_string (provider r)" "set results" results] by simp

lemma collect_known:
  assumes "map provider results = map JStr ids" "list_all (\<lambda>p. known_provider (JStr p)) ids"
  shows "object_keys (collect results) = rev (remdups (rev ids))"
    and "list_all (\<lambda>k. \<exists>r. map_of (collect results) k = Some r \<and> provider r = JStr k) ids"
proof -
  have "map (\<lambda>r. to_string (provider r)) results = map to_string (map provider results)"
    by simp
  also have "\<dots> = ids" unfolding assms(1) by (simp add: comp_def)
  finally have keys: "map fst (collect results) = rev (remdups (rev ids))"
    by (simp only: collect_keys)
  have "list_all (\<lambda>k. array_index k = None) (map fst (collect results))"
    unfolding keys using assms(2) known_not_index by (auto simp add: list_all_iff)
  then show "object_keys (collect results) = rev (remdups (rev ids))"
    using keys by (simp only: object_keys_names)
  have d: "distinct (map fst (collect results))" unfolding keys by simp
  show "list_all (\<lambda>k. \<exists>r. map_of (collect results) k = Some r \<and> provider r = JStr k) ids"
    unfolding list_all_iff
  proof
    fix k assume "k \<in> set ids"
    then have "k \<in> set (map fst (collect results))" unfolding keys by simp
    then obtain r where kr: "(k, r) \<in> set (collect results)" by auto
    with collect_entries[of results] have r: "k = to_string (provider r)" "r \<in> set results" by auto
    from r(2) have "provider r \<in> set (map provider results)" by simp
    then obtain k' where "provider r = JStr k'" unfolding assms(1) by auto
    with r(1) have "provider r = JStr k" by simp
    moreover from d kr have "map_of (collect results) k = Some r" by simp
    ultimately show "\<exists>r. map_of (collect results) k = Some r \<and> provider r = JStr k" by blast
  qed
qed


lemma those_None: "None \<in> set xs \<Longrightarrow> those xs = None"
  by (induction xs) (auto split: option.split)

lemma promise_all_cases:
  assumes "\<forall>i<length tasks. \<exists>v. tasks ! i = Inr v"
  shows "promise_all tasks order =
           (if set [0..<length tasks] \<subseteq> set order then Some (Inr (map projr tasks)) else None)"
proof -
  let ?vals = "map (\<lambda>i. if i \<in> set order then Some (projr (tasks ! i))
                            else replicate (length tasks) None ! i) [0..<length tasks]"
  have s: "settle tasks order (replicate (length tasks) None) = Inr ?vals"
    by (rule settle_fulfilled[OF assms]) simp
  show ?thesis
  proof (cases "set [0..<length tasks] \<subseteq> set order")
    case True
    then have "?vals = map (\<lambda>i. Some (projr (tasks ! i))) [0..<length tasks]"
      by (intro map_cong[OF refl]) auto
    also have "\<dots> = map Some (map projr tasks)"
      by (rule nth_equalityI) simp_all
    finally have e: "settle tasks order (replicate (length tasks) None)
                     = Inr (map Some (map projr tasks))" using s by simp
    show ?thesis
      unfolding promise_all_def e using True by (simp add: those_map_Some del: map_map)
  next
    case False
    then have "\<exists>i. i < length tasks \<and> i \<notin> set order" by auto
    then obtain i where i: "i < length tasks" "i \<notin> set order" by blast
    then have "?vals ! i = None" by simp
    moreover have "i < length ?vals" using i by simp
    ultimately have "None \<in> set ?vals" by (metis nth_mem)
    then have "those ?vals = None" by (rule those_None)
    then show ?thesis unfolding promise_all_def s using False by simp
  qed
qed

lemma aggregate_cases:
  assumes "config \<noteq> JNull"
  shows "\<exists>tasks. launch w prompt config 0 ps = Inr tasks
           \<and> list_all2 (\<lambda>t p. \<exists>r. snd t = Inr r \<and> provider r = p) tasks ps
           \<and> aggregate w prompt (JArr ps) config =
               \<lparr>fetch_calls = concat (map fst tasks), file_reads = [],
                reply = (if set [0..<length ps] \<subseteq> set (w_order w)
                         then Some (json_reply 200 (QueryJson prompt (collect (map projr (map snd tasks)))))
                         else None)\<rparr>"
proof -
  from launch_ok[OF assms(1), of w prompt 0 ps] obtain tasks where
    t: "launch w prompt config 0 ps = Inr tasks"
       "list_all2 (\<lambda>t p. \<exists>r. snd t = Inr r \<and> provider r = p) tasks ps"
    by blast
  have len: "length tasks = length ps" using t(2) by (rule list_all2_lengthD)
  have "\<forall>i<length (map snd tasks). \<exists>v. map snd tasks ! i = Inr v"
    using t(2) by (auto simp add: list_all2_conv_all_nth)
  then have "promise_all (map snd tasks) (w_order w) =
           (if set [0..<length (map snd tasks)] \<subseteq> set (w_order w)
            then Some (Inr (map projr (map snd tasks))) else None)"
    by (rule promise_all_cases)
  with t len show ?thesis by (simp add: aggregate_def)
qed

lemma aggregate_null:
  "ps \<noteq> [] \<Longrightarrow> aggregate w prompt (JArr ps) JNull
     = \<lparr>fetch_calls = [], file_reads = [], reply = Some internal_error\<rparr>"
  by (cases ps) (simp_all add: aggregate_def get_prop_def)


text \<open>
  C1. Take a \<^verbatim>\<open>POST /api/query\<close> whose body parses to an object with a non-empty string
  \<^verbatim>\<open>prompt\<close> and a \<^verbatim>\<open>providers\<close> array of known identifiers. Whenever the reply carries a
  \<^verbatim>\<open>responses\<close> object, its status is 200 and the keys of the object are exactly the
  requested identifiers, each once, in the order of their first occurrence in
  \<^verbatim>\<open>providers\<close>, and the entry of an identifier is a result for that identifier. Such a
  reply is sent when \<^verbatim>\<open>config\<close> is not \<^verbatim>\<open>null\<close> and every task settles, and it is then the
  reply that the completion order \<open>0, 1, 2, ...\<close> gives, whatever the order in which the
  tasks settle.
\<close>

theorem responses_follow_request_order:
  assumes "req_method req = ''POST''" and "req_pathname req = Some ''/api/query''"
    and "req_body req = Some bodyText" and "bodyText \<noteq> []" and "w_parse w bodyText = Some payload"
    and "own_prop payload ''prompt'' = Some (JStr prompt)" and "prompt \<noteq> []"
    and "own_prop payload ''providers'' = Some (JArr (map JStr ids))"
    and "list_all (\<lambda>p. known_provider (JStr p)) ids"
  shows "(\<forall>code ctype p responses.
            reply (handle_request w req) =
              Some \<lparr>reply_status = code, content_type = ctype, sent_body = QueryJson p responses\<rparr>
            \<longrightarrow> code = 200 \<and> p = JStr prompt
              \<and> set (object_keys responses) = set ids
              \<and> distinct (object_keys responses)
              \<and> object_keys responses = rev (remdups (rev ids))
              \<and> (distinct ids \<longrightarrow> object_keys responses = ids)
              \<and> list_all (\<lambda>k. \<exists>r. map_of responses k = Some r \<and> provider r = JStr k) ids)
       \<and> (own_prop payload ''config'' \<noteq> Some JNull \<and> set [0..<length ids] \<subseteq> set (w_order w) \<longrightarrow>
            (\<exists>responses.
               reply (handle_request w req) =
                 Some \<lparr>reply_status = 200, content_type = ''application/json'',
                       sent_body = QueryJson (JStr prompt) responses\<rparr>)
            \<and> reply (handle_request (w\<lparr>w_order := [0..<length ids]\<rparr>) req)
                = reply (handle_request w req))"
proof -
  let ?config = "case own_prop payload ''config'' of None \<Rightarrow> JObj [] | Some v \<Rightarrow> v"
  let ?ps = "map JStr ids"
  let ?w = "w\<lparr>w_order := [0..<length ids]\<rparr>"
  have h: "handle_request w req = aggregate w (JStr prompt) (JArr ?ps) ?config"
    by (rule handle_query[OF assms(1-8)])
  have h': "handle_request ?w req = aggregate ?w (JStr prompt) (JArr ?ps) ?config"
    by (rule handle_query[OF assms(1-4) _ assms(6-8)]) (simp add: assms(5))
  have keys: "set (object_keys responses) = set ids
              \<and> distinct (object_keys responses)
              \<and> object_keys responses = rev (remdups (rev ids))
              \<and> (distinct ids \<longrightarrow> object_keys responses = ids)
              \<and> list_all (\<lambda>k. \<exists>r. map_of responses k = Some r \<and> provider r = JStr k) ids"
    if r: "responses = collect (map projr (map snd tasks))"
      and t: "list_all2 (\<lambda>t p. \<exists>r. snd t = Inr r \<and> provider r = p) tasks ?ps"
    for responses and tasks :: "normalized_result async list"
  proof -
    let ?results = "map projr (map snd tasks)"
    have p: "map provider ?results = ?ps"
    proof (rule nth_equalityI)
      show "length (map provider ?results) = length ?ps"
        using t by (simp add: list_all2_lengthD)
    next
      fix i assume "i < length (map provider ?results)"
      then have i: "i < length tasks" by simp
      with t obtain r where "snd (tasks ! i) = Inr r" "provider r = ?ps ! i"
        by (auto simp add: list_all2_conv_all_nth)
      with i show "map provider ?results ! i = ?ps ! i" by simp
    qed
    note k = collect_known[OF p assms(9)]
    have "set (object_keys (collect ?results)) = set ids" unfolding k(1) by simp
    moreover have "distinct (object_keys (collect ?results))" unfolding k(1) by simp
    moreover have "distinct ids \<longrightarrow> object_keys (collect ?results) = ids"
      unfolding k(1) by (simp add: distinct_remdups_id)
    ultimately show ?thesis unfolding r using k by blast
  qed
  show ?thesis
  proof (cases "?config = JNull")
    case True
    then have n: "own_prop payload ''config'' = Some JNull"
      by (cases "own_prop payload ''config''") auto
    show ?thesis
    proof (cases "ids = []")
      case True
      then show ?thesis
        unfolding h n by (simp add: aggregate_empty json_reply_def object_keys_def)
    next
      case False
      then have "aggregate w (JStr prompt) (JArr ?ps) ?config
                  = \<lparr>fetch_calls = [], file_reads = [], reply = Some internal_error\<rparr>"
        unfolding True by (intro aggregate_null) simp
      then show ?thesis
        unfolding h n by (simp add: internal_error_def json_reply_def)
    qed
  next
    case False
    then have c: "own_prop payload ''config'' \<noteq> Some JNull" by auto
    from aggregate_cases[OF False, of w "JStr prompt" ?ps] obtain tasks where
      t: "launch w (JStr prompt) ?config 0 ?ps = Inr tasks"
         "list_all2 (\<lambda>t p. \<exists>r. snd t = Inr r \<and> provider r = p) tasks ?ps"
         "aggregate w (JStr prompt) (JArr ?ps) ?config =
               \<lparr>fetch_calls = concat (map fst tasks), file_reads = [],
                reply = (if set [0..<length ?ps] \<subseteq> set (w_order w)
                         then Some (json_reply 200 (QueryJson (JStr prompt) (collect (map projr (map snd tasks)))))
                         else None)\<rparr>"
      by blast
    from aggregate_cases[OF False, of ?w "JStr prompt" ?ps] t(1)
    have t': "aggregate ?w (JStr prompt) (JArr ?ps) ?config =
               \<lparr>fetch_calls = concat (map fst tasks), file_reads = [],
                reply = Some (json_reply 200 (QueryJson (JStr prompt) (collect (map projr (map snd tasks)))))\<rparr>"
      by (auto simp add: launch_w_order)
    note k = keys[OF refl t(2)]
    have a: "\<forall>code ctype p responses.
            reply (handle_request w req) =
              Some \<lparr>reply_status = code, content_type = ctype, sent_body = QueryJson p responses\<rparr>
            \<longrightarrow> code = 200 \<and> p = JStr prompt
              \<and> set (object_keys responses) = set ids
              \<and> distinct (object_keys responses)
              \<and> object_keys responses = rev (remdups (rev ids))
              \<and> (distinct ids \<longrightarrow> object_keys responses = ids)
              \<and> list_all (\<lambda>k. \<exists>r. map_of responses k = Some r \<and> provider r = JStr k) ids"
    proof (intro allI impI)
      fix code ctype p responses
      assume "reply (handle_request w req) =
              Some \<lparr>reply_status = code, content_type = ctype, sent_body = QueryJson p responses\<rparr>"
      then have e: "code = 200" "p = JStr prompt" "responses = collect (map projr (map snd tasks))"
        unfolding h t(3) by (simp_all add: json_reply_def split: if_splits)
      show "code = 200 \<and> p = JStr prompt
              \<and> set (object_keys responses) = set ids
              \<and> distinct (object_keys responses)
              \<and> object_keys responses = rev (remdups (rev ids))
              \<and> (distinct ids \<longrightarrow> object_keys responses = ids)
              \<and> list_all (\<lambda>k. \<exists>r. map_of responses k = Some r \<and> provider r = JStr k) ids"
        unfolding e using k by blast
    qed
    have b: "set [0..<length ids] \<subseteq> set (w_order w) \<Longrightarrow>
            (\<exists>responses.
               reply (handle_request w req) =
                 Some \<lparr>reply_status = 200, content_type = ''application/json'',
                       sent_body = QueryJson (JStr prompt) responses\<rparr>)
            \<and> reply (handle_request ?w req) = reply (handle_request w req)"
      unfolding h h' t(3) t' by (simp add: json_reply_def)
    from a b show ?thesis by blast
  qed
qed

theorem responses_follow_request_order_witness:
  "\<exists>responses.
     reply (handle_request sample_world two_providers_request) =
       Some \<lparr>reply_status = 200, content_type = ''application/json'',
             sent_body = QueryJson (JStr ''hi'') responses\<rparr>
     \<and> object_keys responses = [''gemini'', ''openai'']
     \<and> w_order sample_world = [1, 0]"
proof -
  let ?payload = "JObj [(''prompt'', JStr ''hi''), (''providers'', JArr [JStr ''gemini'', JStr ''openai''])]"
  let ?ids = "[''gemini'', ''openai'']"
  have 1: "req_method two_providers_request = ''POST''"
    and 2: "req_pathname two_providers_request = Some ''/api/query''"
    by (simp_all add: two_providers_request_def)
  have 3: \<open>req_body two_providers_request = Some ''{"prompt":"hi","providers":["gemini","openai"]}''\<close>
    by (simp add: two_providers_request_def)
  have 4: \<open>''{"prompt":"hi","providers":["gemini","openai"]}'' \<noteq> []\<close> by simp
  have 5: \<open>w_parse sample_world ''{"prompt":"hi","providers":["gemini","openai"]}'' = Some ?payload\<close>
    by (simp add: sample_world_def sample_parse_def)
  have 6: "own_prop ?payload ''prompt'' = Some (JStr ''hi'')" by simp
  have 7: "''hi'' \<noteq> []" by simp
  have 8: "own_prop ?payload ''providers'' = Some (JArr (map JStr ?ids))" by simp
  have 9: "list_all (\<lambda>p. known_provider (JStr p)) ?ids" by (simp add: known_provider_def)
  have 10: "own_prop ?payload ''config'' \<noteq> Some JNull" by simp
  have o: "w_order sample_world = [1, 0]" by (simp add: sample_world_def)
  have 11: "set [0..<length ?ids] \<subseteq> set (w_order sample_world)"
    unfolding o by (simp add: upt_rec)
  note t = responses_follow_request_order[OF 1 2 3 4 5 6 7 8 9]
  from t 10 11 obtain responses where
    r: "reply (handle_request sample_world two_providers_request) =
       Some \<lparr>reply_status = 200, content_type = ''application/json'',
             sent_body = QueryJson (JStr ''hi'') responses\<rparr>"
    by blast
  with t have "distinct ?ids \<longrightarrow> object_keys responses = ?ids"
    by blast
  with r o show ?thesis by auto
qed

lemma split_path_nonempty: "split_path p \<noteq> []"
  by (induction p) (auto split: list.split)

lemma split_path_slash: "split_path (a @ CHR ''/'' # b) = split_path a @ split_path b"
proof (induction a)
  case Nil
  show ?case by simp
next
  case (Cons c a)
  obtain s ss where s: "split_path a = s # ss"
    using split_path_nonempty[of a] by (cases "split_path a") auto
  show ?case using Cons s by simp
qed

lemma split_path_name: "CHR ''/'' \<notin> set s \<Longrightarrow> split_path s = [s]"
  by (induction s) auto

lemma split_path_segments: "s \<in> set (split_path p) \<Longrightarrow> CHR ''/'' \<notin> set s"
proof (induction p arbitrary: s)
  case Nil
  then show ?case by simp
next
  case (Cons c p)
  obtain t ts where t: "split_path p = t # ts"
    using split_path_nonempty[of p] by (cases "split_path p") auto
  show ?case
  proof (cases "c = CHR ''/''")
    case True
    with Cons show ?thesis by auto
  next
    case False
    with Cons.prems t have "s = c # t \<or> s \<in> set ts" by simp
    then show ?thesis
    proof
      assume "s = c # t"
      moreover have "CHR ''/'' \<notin> set t" using Cons.IH[of t] t by simp
      ultimately show ?thesis using False by simp
    next
      assume "s \<in> set ts"
      then show ?thesis using Cons.IH[of s] t by simp
    qed
  qed
qed

lemma split_join:
  "segs \<noteq> [] \<Longrightarrow> list_all (\<lambda>s. CHR ''/'' \<notin> set s) segs \<Longrightarrow> split_path (join_str ''/'' segs) = segs"
proof (induction "''/''" segs rule: join_str.induct)
  case 1
  then show ?case by simp
next
  case (2 x)
  then show ?case by (simp add: split_path_name)
next
  case (3 x y ys)
  have "split_path (x @ CHR ''/'' # join_str ''/'' (y # ys)) = split_path x @ split_path (join_str ''/'' (y # ys))"
    by (rule split_path_slash)
  with 3 show ?case by (simp add: split_path_name)
qed

lemma join_append:
  "xs \<noteq> [] \<Longrightarrow> ys \<noteq> [] \<Longrightarrow> join_str sep (xs @ ys) = join_str sep xs @ sep @ join_str sep ys"
proof (induction sep xs rule: join_str.induct)
  case (1 sep)
  then show ?case by simp
next
  case (2 sep x)
  then show ?case by (cases ys) simp_all
next
  case (3 sep x y zs)
  then show ?case by simp
qed

lemma clean_butlast: "clean xs \<Longrightarrow> clean (butlast xs)"
  by (auto simp add: clean_def list_all_iff dest: in_set_butlastD)

lemma normalizeString_clean:
  "clean res \<Longrightarrow> list_all (\<lambda>s. CHR ''/'' \<notin> set s) segs \<Longrightarrow>
   clean (normalizeString False res segs)"
proof (induction segs arbitrary: res)
  case Nil
  then show ?case by simp
next
  case (Cons seg segs)
  have "clean (res @ [seg])" if "seg \<noteq> []" "seg \<noteq> ''.''" "seg \<noteq> ''..''"
    using that Cons.prems by (simp add: clean_def)
  then show ?case
    using Cons by (auto simp add: clean_butlast)
qed

lemma normalizeString_append:
  "normalizeString a res (xs @ ys) = normalizeString a (normalizeString a res xs) ys"
  by (induction a res xs rule: normalizeString.induct) auto

lemma normalizeString_names:
  "''..'' \<notin> set xs \<Longrightarrow>
   normalizeString a res xs = res @ filter (\<lambda>s. s \<noteq> [] \<and> s \<noteq> ''.'') xs"
  by (induction xs arbitrary: res) auto

lemma normalizeString_of_clean: "clean xs \<Longrightarrow> normalizeString a res xs = res @ xs"
proof -
  assume c: "clean xs"
  then have "''..'' \<notin> set xs" by (auto simp add: clean_def list_all_iff)
  moreover have "filter (\<lambda>s. s \<noteq> [] \<and> s \<noteq> ''.'') xs = xs"
    using c by (auto simp add: clean_def list_all_iff filter_id_conv)
  ultimately show ?thesis by (simp add: normalizeString_names)
qed

lemma join_clean_empty: "clean segs \<Longrightarrow> (join_str ''/'' segs = []) = (segs = [])"
proof (cases segs)
  case Nil
  then show ?thesis by simp
next
  case (Cons x xs)
  assume "clean segs"
  with Cons have "x \<noteq> []" by (simp add: clean_def)
  with Cons show ?thesis by (cases xs) simp_all
qed

lemma normalize_absolute:
  assumes "p \<noteq> []" "hd p = CHR ''/''"
  shows "posix_normalize p =
           ''/'' @ join_str ''/'' (normalizeString False [] (split_path p))
           @ (if normalizeString False [] (split_path p) \<noteq> [] \<and> last p = CHR ''/'' then ''/'' else [])"
    and "clean (normalizeString False [] (split_path p))"
proof -
  show c: "clean (normalizeString False [] (split_path p))"
    by (rule normalizeString_clean) (auto simp add: clean_def list_all_iff dest: split_path_segments)
  show "posix_normalize p =
           ''/'' @ join_str ''/'' (normalizeString False [] (split_path p))
           @ (if normalizeString False [] (split_path p) \<noteq> [] \<and> last p = CHR ''/'' then ''/'' else [])"
    using assms join_clean_empty[OF c] by (simp add: posix_normalize_def Let_def)
qed

lemma strip_absolute: "strip_leading_parent (CHR ''/'' # p) = CHR ''/'' # p"
  by (simp add: strip_leading_parent_def split: list.split)

text \<open>The public directory is an absolute path of names.\<close>

lemma publicDir_shape:
  assumes "dirname \<noteq> []" "hd dirname = CHR ''/''"
  obtains P where "publicDir dirname = CHR ''/'' # join_str ''/'' P" "clean P" "P \<noteq> []"
proof -
  let ?D = "normalizeString False [] (split_path dirname)"
  let ?p = "dirname @ ''/'' @ ''public''"
  have j: "posix_join [dirname, ''public''] = posix_normalize ?p"
    using assms(1) by (simp add: posix_join_def)
  have a: "?p \<noteq> []" "hd ?p = CHR ''/''" using assms by simp_all
  have cD: "clean ?D"
    by (rule normalize_absolute(2)[OF assms])
  have "split_path ?p = split_path dirname @ split_path ''public''"
    using split_path_slash[of dirname "''public''"] by simp
  also have "split_path ''public'' = [''public'']" by (simp add: split_path_name)
  finally have "normalizeString False [] (split_path ?p) = normalizeString False ?D [''public'']"
    by (simp add: normalizeString_append)
  then have n: "normalizeString False [] (split_path ?p) = ?D @ [''public'']" by simp
  have l: "last ?p \<noteq> CHR ''/''" by simp
  have "publicDir dirname = ''/'' @ join_str ''/'' (?D @ [''public''])"
    unfolding publicDir_def j normalize_absolute(1)[OF a] n using l by simp
  moreover have "clean (?D @ [''public''])" using cD by (simp add: clean_def)
  ultimately show ?thesis using that[of "?D @ [''public'']"] by simp
qed

text \<open>What \<open>serveStatic\<close> hands to \<open>posix_join\<close>: a non-empty path without \<^verbatim>\<open>..\<close> segment.\<close>

lemma requestedFile_shape:
  assumes "relativePath = [] \<or> hd relativePath = CHR ''/''"
  shows "strip_leading_parent (posix_normalize relativePath) \<noteq> []
       \<and> ''..'' \<notin> set (split_path (strip_leading_parent (posix_normalize relativePath)))"
proof (cases "relativePath = []")
  case True
  then show ?thesis
    by (simp add: posix_normalize_def strip_leading_parent_def)
next
  case False
  with assms have h: "hd relativePath = CHR ''/''" by simp
  let ?S = "normalizeString False [] (split_path relativePath)"
  let ?t = "if ?S \<noteq> [] \<and> last relativePath = CHR ''/'' then ''/'' else []"
  have n: "posix_normalize relativePath = CHR ''/'' # join_str ''/'' ?S @ ?t"
    using normalize_absolute(1)[OF False h] by simp
  have c: "clean ?S" by (rule normalize_absolute(2)[OF False h])
  have s: "strip_leading_parent (posix_normalize relativePath) = CHR ''/'' # join_str ''/'' ?S @ ?t"
    unfolding n by (rule strip_absolute)
  have ns: "list_all (\<lambda>s. CHR ''/'' \<notin> set s) ?S" using c by (auto simp add: clean_def list_all_iff)
  have nd: "''..'' \<notin> set ?S" using c by (auto simp add: clean_def list_all_iff)
  have "set (split_path (join_str ''/'' ?S @ ?t)) \<subseteq> insert [] (set ?S)"
  proof (cases "?S = []")
    case True
    then show ?thesis by simp
  next
    case False
    show ?thesis
    proof (cases "last relativePath = CHR ''/''")
      case True
      have "split_path (join_str ''/'' ?S @ CHR ''/'' # []) = split_path (join_str ''/'' ?S) @ split_path []"
        by (rule split_path_slash)
      then show ?thesis using True False split_join[OF False ns] by auto
    next
      case False
      then show ?thesis using \<open>?S \<noteq> []\<close> split_join[OF _ ns] by auto
    qed
  qed
  then have "''..'' \<notin> set (split_path (CHR ''/'' # join_str ''/'' ?S @ ?t))"
    using nd by auto
  then show ?thesis unfolding s by simp
qed


lemma filePath_shape:
  assumes "dirname \<noteq> []" "hd dirname = CHR ''/''"
    and "requestedFile \<noteq> []" "''..'' \<notin> set (split_path requestedFile)"
  shows "under_root (publicDir dirname) (posix_join [publicDir dirname, requestedFile])"
proof -
  from publicDir_shape[OF assms(1,2)] obtain P where
    P: "publicDir dirname = CHR ''/'' # join_str ''/'' P" "clean P" "P \<noteq> []"
    by blast
  define pd where "pd = publicDir dirname"
  define p where "p = pd @ ''/'' @ requestedFile"
  define S where "S = filter (\<lambda>s. s \<noteq> [] \<and> s \<noteq> ''.'') (split_path requestedFile)"
  define F where "F = normalizeString False [] (split_path p)"
  define t where "t = (if F \<noteq> [] \<and> last p = CHR ''/'' then ''/'' else [])"
  have pd: "pd = CHR ''/'' # join_str ''/'' P" unfolding pd_def by (rule P(1))
  have j: "posix_join [pd, requestedFile] = posix_normalize p"
    using assms(3) pd by (simp add: posix_join_def p_def)
  have a: "p \<noteq> []" "hd p = CHR ''/''" using pd by (simp_all add: p_def)
  have nsP: "list_all (\<lambda>s. CHR ''/'' \<notin> set s) P" using P(2) by (auto simp add: clean_def list_all_iff)
  have "split_path pd = [] # P"
    unfolding pd using split_join[OF P(3) nsP] by simp
  moreover have "split_path p = split_path pd @ split_path requestedFile"
    unfolding p_def using split_path_slash[of pd requestedFile] by simp
  ultimately have "F = normalizeString False (normalizeString False [] ([] # P)) (split_path requestedFile)"
    unfolding F_def by (simp only: normalizeString_append)
  also have "normalizeString False [] ([] # P) = P"
    using normalizeString_of_clean[OF P(2), of False "[]"] by simp
  also have "normalizeString False P (split_path requestedFile) = P @ S"
    unfolding S_def by (rule normalizeString_names[OF assms(4)])
  finally have F: "F = P @ S" .
  have cF: "clean F" unfolding F_def by (rule normalize_absolute(2)[OF a])
  have n: "posix_normalize p = CHR ''/'' # join_str ''/'' F @ t"
    using normalize_absolute(1)[OF a] by (simp add: F_def t_def)
  have t: "t = [] \<or> t = ''/''" by (simp add: t_def)
  have pre: "posix_normalize p = pd \<or> prefix (pd @ ''/'') (posix_normalize p)"
  proof (cases "S = []")
    case True
    then have "posix_normalize p = pd @ t"
      using n F pd by simp
    then show ?thesis using t by (auto simp add: prefix_def)
  next
    case False
    have "join_str ''/'' (P @ S) = join_str ''/'' P @ ''/'' @ join_str ''/'' S"
      by (rule join_append[OF P(3) False])
    then have "posix_normalize p = (pd @ ''/'') @ (join_str ''/'' S @ t)"
      using n F pd by simp
    then show ?thesis unfolding prefix_def by blast
  qed
  have nsF: "list_all (\<lambda>s. CHR ''/'' \<notin> set s) F" using cF by (auto simp add: clean_def list_all_iff)
  have ndF: "''..'' \<notin> set F" using cF by (auto simp add: clean_def list_all_iff)
  have Fne: "F \<noteq> []" unfolding F using P(3) by simp
  have sj: "split_path (join_str ''/'' F) = F" by (rule split_join[OF Fne nsF])
  have "set (split_path (join_str ''/'' F @ t)) \<subseteq> insert [] (set F)"
    using t
  proof
    assume "t = []"
    then show ?thesis using sj by auto
  next
    assume "t = ''/''"
    moreover
    have "split_path (join_str ''/'' F @ CHR ''/'' # []) = split_path (join_str ''/'' F) @ split_path []"
      by (rule split_path_slash)
    ultimately show ?thesis using sj by auto
  qed
  then have "''..'' \<notin> set (split_path (posix_normalize p))"
    unfolding n using ndF by auto
  with pre have "under_root pd (posix_join [pd, requestedFile])"
    unfolding under_root_def j by simp
  then show ?thesis unfolding pd_def .
qed

lemma serveStatic_path:
  assumes "dirname \<noteq> []" "hd dirname = CHR ''/''"
    and "requestPath = [] \<or> hd requestPath = CHR ''/''"
  shows "under_root (publicDir dirname) (fst (serveStatic dirname readFile requestPath))"
proof -
  let ?rel = "if requestPath = ''/'' then ''/index.html'' else requestPath"
  have "?rel = [] \<or> hd ?rel = CHR ''/''" using assms(3) by simp
  from requestedFile_shape[OF this]
  have "under_root (publicDir dirname)
          (posix_join [publicDir dirname, strip_leading_parent (posix_normalize ?rel)])"
    by (intro filePath_shape[OF assms(1,2)]) simp_all
  then show ?thesis by (simp add: serveStatic_def Let_def)
qed

lemma serveStatic_not_found:
  assumes "readFile (fst (serveStatic dirname readFile requestPath)) = Inl e" "exn_code e = Some ''ENOENT''"
  shows "snd (serveStatic dirname readFile requestPath) =
           Inr \<lparr>reply_status = 404, content_type = ''text/plain'', sent_body = TextBody ''Not found''\<rparr>"
  using assms by (simp add: serveStatic_def Let_def)

lemma handle_get:
  assumes "req_method req = ''GET''" "req_pathname req = Some requestPath"
  shows "file_reads (handle_request w req) = [fst (serveStatic (w_dirname w) (w_readFile w) requestPath)]"
    and "fetch_calls (handle_request w req) = []"
    and "reply (handle_request w req) =
           Some (case snd (serveStatic (w_dirname w) (w_readFile w) requestPath) of
                   Inr sent \<Rightarrow> sent | Inl error \<Rightarrow> internal_error)"
  using assms
  by (simp_all add: handle_request_def split: prod.split sum.split)

lemma serveStatic_found:
  assumes "readFile (fst (serveStatic dirname readFile requestPath)) = Inr data"
  shows "snd (serveStatic dirname readFile requestPath) =
           Inr \<lparr>reply_status = 200,
                content_type = getContentType (fst (serveStatic dirname readFile requestPath)),
                sent_body = FileBody data\<rparr>"
  using assms by (simp add: serveStatic_def Let_def)

lemma serveStatic_rethrows:
  assumes "readFile (fst (serveStatic dirname readFile requestPath)) = Inl e"
    "exn_code e \<noteq> Some ''ENOENT''"
  shows "snd (serveStatic dirname readFile requestPath) = Inl e"
  using assms by (simp add: serveStatic_def Let_def)

text \<open>
  C2 (amended). For a \<^verbatim>\<open>GET\<close> request, \<^verbatim>\<open>url.pathname\<close> is empty or starts with \<^verbatim>\<open>/\<close>,
  and \<^verbatim>\<open>__dirname\<close> is absolute. The handler then reads exactly one file, the one
  \<open>serveStatic\<close> resolves, and calls no vendor; the path of that file is the public
  directory or lies below it and has no \<^verbatim>\<open>..\<close> segment, however many \<^verbatim>\<open>..\<close> segments the
  request path has. The reply is decided by that one read: 404 \<^verbatim>\<open>Not found\<close> when it fails
  with \<^verbatim>\<open>ENOENT\<close>, 200 with the contents and the content type of the file when it
  succeeds, and 500 when it fails in any other way.
\<close>

theorem static_files_stay_under_root:
  assumes "w_dirname w \<noteq> []" and "hd (w_dirname w) = CHR ''/''"
    and "req_method req = ''GET''" and "req_pathname req = Some requestPath"
    and "requestPath = [] \<or> hd requestPath = CHR ''/''"
  shows "\<exists>filePath.
           filePath = fst (serveStatic (w_dirname w) (w_readFile w) requestPath)
         \<and> file_reads (handle_request w req) = [filePath]
         \<and> fetch_calls (handle_request w req) = []
         \<and> under_root (publicDir (w_dirname w)) filePath
         \<and> (\<forall>e. w_readFile w filePath = Inl e \<and> exn_code e = Some ''ENOENT'' \<longrightarrow>
                reply (handle_request w req) =
                  Some \<lparr>reply_status = 404, content_type = ''text/plain'',
                        sent_body = TextBody ''Not found''\<rparr>)
         \<and> (\<forall>data. w_readFile w filePath = Inr data \<longrightarrow>
                reply (handle_request w req) =
                  Some \<lparr>reply_status = 200, content_type = getContentType filePath,
                        sent_body = FileBody data\<rparr>)
         \<and> (\<forall>e. w_readFile w filePath = Inl e \<and> exn_code e \<noteq> Some ''ENOENT'' \<longrightarrow>
                reply (handle_request w req) =
                  Some \<lparr>reply_status = 500, content_type = ''application/json'',
                        sent_body = ErrorJson ''Internal server error''\<rparr>)"
proof -
  let ?f = "fst (serveStatic (w_dirname w) (w_readFile w) requestPath)"
  note r = handle_get(3)[OF assms(3,4), of w]
  have "file_reads (handle_request w req) = [?f]"
    by (rule handle_get(1)[OF assms(3,4)])
  moreover have "fetch_calls (handle_request w req) = []"
    by (rule handle_get(2)[OF assms(3,4)])
  moreover have "under_root (publicDir (w_dirname w)) ?f"
    by (rule serveStatic_path[OF assms(1,2,5)])
  moreover have "reply (handle_request w req) =
                  Some \<lparr>reply_status = 404, content_type = ''text/plain'',
                        sent_body = TextBody ''Not found''\<rparr>"
    if "w_readFile w ?f = Inl e \<and> exn_code e = Some ''ENOENT''" for e
    using that serveStatic_not_found[of "w_readFile w" "w_dirname w" requestPath e]
    by (simp add: r)
  moreover have "reply (handle_request w req) =
                  Some \<lparr>reply_status = 200, content_type = getContentType ?f,
                        sent_body = FileBody data\<rparr>"
    if "w_readFile w ?f = Inr data" for data
    using that serveStatic_found[of "w_readFile w" "w_dirname w" requestPath data]
    by (simp add: r)
  moreover have "reply (handle_request w req) =
                  Some \<lparr>reply_status = 500, content_type = ''application/json'',
                        sent_body = ErrorJson ''Internal server error''\<rparr>"
    if "w_readFile w ?f = Inl e \<and> exn_code e \<noteq> Some ''ENOENT''" for e
    using that serveStatic_rethrows[of "w_readFile w" "w_dirname w" requestPath e]
    by (simp add: r internal_error_def json_reply_def)
  ultimately show ?thesis by blast
qed

lemmas path_defs = serveStatic_def posix_join_def posix_normalize_def publicDir_def
  strip_leading_parent_def Let_def

lemma traversal_path:
  "fst (serveStatic ''/srv/app'' readFile ''/../etc/passwd'') = ''/srv/app/public/etc/passwd''"
  by (simp add: path_defs)

text \<open>A request path that does not start with \<^verbatim>\<open>/\<close> is not a \<^verbatim>\<open>url.pathname\<close>; for such a
  path the removal of one leading \<^verbatim>\<open>../\<close> would not be enough.\<close>

lemma relative_path_escapes:
  "fst (serveStatic ''/srv/app'' readFile ''../../etc/passwd'') = ''/srv/app/etc/passwd''"
  by (simp add: path_defs)

lemma below_file_path:
  "fst (serveStatic ''/srv/app'' readFile ''/index.html/x'') = ''/srv/app/public/index.html/x''"
  by (simp add: path_defs)

lemma index_file_path:
  "fst (serveStatic ''/srv/app'' readFile ''/../index.html'') = ''/srv/app/public/index.html''"
  by (simp add: path_defs)

lemma index_file_type: "getContentType ''/srv/app/public/index.html'' = ''text/html; charset=utf-8''"
  by (simp add: getContentType_def posix_extname_def)

theorem static_files_stay_under_root_witness:
  "w_dirname sample_world \<noteq> [] \<and> hd (w_dirname sample_world) = CHR ''/''
   \<and> req_method traversal_request = ''GET''
   \<and> req_pathname traversal_request = Some ''/../etc/passwd''
   \<and> file_reads (handle_request sample_world traversal_request) = [''/srv/app/public/etc/passwd'']
   \<and> under_root (publicDir ''/srv/app'') ''/srv/app/public/etc/passwd''
   \<and> publicDir ''/srv/app'' = ''/srv/app/public''
   \<and> reply (handle_request sample_world traversal_request) =
        Some \<lparr>reply_status = 404, content_type = ''text/plain'', sent_body = TextBody ''Not found''\<rparr>
   \<and> index_only ''/srv/app/public/index.html'' = Inr ''<!DOCTYPE html>''
   \<and> reply (handle_request site_world traversal_index_request) =
        Some \<lparr>reply_status = 200, content_type = ''text/html; charset=utf-8'',
              sent_body = FileBody ''<!DOCTYPE html>''\<rparr>
   \<and> exn_code (projl (index_only ''/srv/app/public/index.html/x'')) = Some ''ENOTDIR''
   \<and> file_reads (handle_request site_world below_file_request) = [''/srv/app/public/index.html/x'']
   \<and> reply (handle_request site_world below_file_request) =
        Some \<lparr>reply_status = 500, content_type = ''application/json'',
              sent_body = ErrorJson ''Internal server error''\<rparr>"
proof -
  have d: "w_dirname sample_world = ''/srv/app''" "w_readFile sample_world = no_files"
    by (simp_all add: sample_world_def)
  have d': "w_dirname site_world = ''/srv/app''" "w_readFile site_world = index_only"
    by (simp_all add: site_world_def sample_world_def)
  have 1: "w_dirname sample_world \<noteq> []" and 2: "hd (w_dirname sample_world) = CHR ''/''"
    unfolding d by simp_all
  have s1: "w_dirname site_world \<noteq> []" and s2: "hd (w_dirname site_world) = CHR ''/''"
    unfolding d' by simp_all
  have 3: "req_method traversal_request = ''GET''"
    and 4: "req_pathname traversal_request = Some ''/../etc/passwd''"
    by (simp_all add: traversal_request_def)
  have 5: "''/../etc/passwd'' = [] \<or> hd ''/../etc/passwd'' = CHR ''/''" by simp
  have p: "publicDir ''/srv/app'' = ''/srv/app/public''" by (simp add: path_defs)
  from static_files_stay_under_root[OF 1 2 3 4 5] obtain filePath where
    f: "filePath = fst (serveStatic (w_dirname sample_world) (w_readFile sample_world) ''/../etc/passwd'')"
       "file_reads (handle_request sample_world traversal_request) = [filePath]"
       "under_root (publicDir (w_dirname sample_world)) filePath"
       "\<forall>e. w_readFile sample_world filePath = Inl e \<and> exn_code e = Some ''ENOENT'' \<longrightarrow>
            reply (handle_request sample_world traversal_request) =
              Some \<lparr>reply_status = 404, content_type = ''text/plain'', sent_body = TextBody ''Not found''\<rparr>"
    by blast
  have e: "filePath = ''/srv/app/public/etc/passwd''"
    unfolding f(1) d by (rule traversal_path)
  have "\<exists>e. no_files filePath = Inl e \<and> exn_code e = Some ''ENOENT''"
    by (simp add: no_files_def)
  with f(4) have "reply (handle_request sample_world traversal_request) =
              Some \<lparr>reply_status = 404, content_type = ''text/plain'', sent_body = TextBody ''Not found''\<rparr>"
    unfolding d by blast
  with f(2,3) 1 2 3 4 p have A:
    "w_dirname sample_world \<noteq> [] \<and> hd (w_dirname sample_world) = CHR ''/''
     \<and> req_method traversal_request = ''GET''
     \<and> req_pathname traversal_request = Some ''/../etc/passwd''
     \<and> file_reads (handle_request sample_world traversal_request) = [''/srv/app/public/etc/passwd'']
     \<and> under_root (publicDir ''/srv/app'') ''/srv/app/public/etc/passwd''
     \<and> publicDir ''/srv/app'' = ''/srv/app/public''
     \<and> reply (handle_request sample_world traversal_request) =
          Some \<lparr>reply_status = 404, content_type = ''text/plain'', sent_body = TextBody ''Not found''\<rparr>"
    unfolding e d by simp
  have i3: "req_method traversal_index_request = ''GET''"
    and i4: "req_pathname traversal_index_request = Some ''/../index.html''"
    by (simp_all add: traversal_index_request_def)
  have i5: "''/../index.html'' = [] \<or> hd ''/../index.html'' = CHR ''/''" by simp
  have i: "index_only ''/srv/app/public/index.html'' = Inr ''<!DOCTYPE html>''"
    by (simp add: index_only_def)
  from static_files_stay_under_root[OF s1 s2 i3 i4 i5] obtain g where
    g: "g = fst (serveStatic (w_dirname site_world) (w_readFile site_world) ''/../index.html'')"
       "\<forall>data. w_readFile site_world g = Inr data \<longrightarrow>
            reply (handle_request site_world traversal_index_request) =
              Some \<lparr>reply_status = 200, content_type = getContentType g, sent_body = FileBody data\<rparr>"
    by blast
  have ge: "g = ''/srv/app/public/index.html''"
    unfolding g(1) d' by (rule index_file_path)
  from g(2) i have B: "reply (handle_request site_world traversal_index_request) =
        Some \<lparr>reply_status = 200, content_type = ''text/html; charset=utf-8'',
              sent_body = FileBody ''<!DOCTYPE html>''\<rparr>"
    unfolding ge d' by (simp add: index_file_type)
  have n3: "req_method below_file_request = ''GET''"
    and n4: "req_pathname below_file_request = Some ''/index.html/x''"
    by (simp_all add: below_file_request_def)
  have n5: "''/index.html/x'' = [] \<or> hd ''/index.html/x'' = CHR ''/''" by simp
  have n: "index_only ''/srv/app/public/index.html/x'' =
             Inl (Exn (''ENOTDIR: not a directory, open '' @ quoted ''/srv/app/public/index.html/x'')
                    (Some ''ENOTDIR''))"
    by (simp add: index_only_def)
  from static_files_stay_under_root[OF s1 s2 n3 n4 n5] obtain h where
    h: "h = fst (serveStatic (w_dirname site_world) (w_readFile site_world) ''/index.html/x'')"
       "file_reads (handle_request site_world below_file_request) = [h]"
       "\<forall>e. w_readFile site_world h = Inl e \<and> exn_code e \<noteq> Some ''ENOENT'' \<longrightarrow>
            reply (handle_request site_world below_file_request) =
              Some \<lparr>reply_status = 500, content_type = ''application/json'',
                    sent_body = ErrorJson ''Internal server error''\<rparr>"
    by blast
  have he: "h = ''/srv/app/public/index.html/x''"
    unfolding h(1) d' by (rule below_file_path)
  have "\<exists>e. index_only h = Inl e \<and> exn_code e \<noteq> Some ''ENOENT''"
    unfolding he n by simp
  with h(3) have C: "reply (handle_request site_world below_file_request) =
        Some \<lparr>reply_status = 500, content_type = ''application/json'',
              sent_body = ErrorJson ''Internal server error''\<rparr>"
    unfolding d' by blast
  have D: "exn_code (projl (index_only ''/srv/app/public/index.html/x'')) = Some ''ENOTDIR''"
    unfolding n by simp
  from A i B D h(2) C show ?thesis unfolding he by blast
qed

text \<open>
  C2 as stated fails in its last part: a request path with a \<^verbatim>\<open>..\<close> segment is resolved
  inside the public directory, and when a file exists there the reply is 200 with that
  file, not 404.
\<close>

theorem traversal_to_existing_file_counterexample:
  "req_pathname traversal_index_request = Some ''/../index.html''
   \<and> file_reads (handle_request site_world traversal_index_request)
        = [''/srv/app/public/index.html'']
   \<and> reply (handle_request site_world traversal_index_request) =
        Some \<lparr>reply_status = 200, content_type = ''text/html; charset=utf-8'',
              sent_body = FileBody ''<!DOCTYPE html>''\<rparr>"
proof -
  have p: "fst (serveStatic ''/srv/app'' index_only ''/../index.html'') = ''/srv/app/public/index.html''"
    by (simp add: path_defs)
  have e: "posix_extname ''/srv/app/public/index.html'' = ''.html''"
    by (simp add: posix_extname_def)
  have s: "snd (serveStatic ''/srv/app'' index_only ''/../index.html'') =
             Inr \<lparr>reply_status = 200, content_type = ''text/html; charset=utf-8'',
                  sent_body = FileBody ''<!DOCTYPE html>''\<rparr>"
    using p by (simp add: serveStatic_def Let_def index_only_def getContentType_def e)
  have m: "req_method traversal_index_request = ''GET''"
    and r: "req_pathname traversal_index_request = Some ''/../index.html''"
    by (simp_all add: traversal_index_request_def)
  have w: "w_dirname site_world = ''/srv/app''" "w_readFile site_world = index_only"
    by (simp_all add: site_world_def sample_world_def)
  show ?thesis
    using handle_get(1)[OF m r, of site_world] handle_get(3)[OF m r, of site_world] r
    unfolding w p s by simp
qed

end
